theory Spec2Isabelle
  imports Main
begin

section \<open>JavaScript values and the objects of the authentication SDK\<close>

text \<open>
  The user handle and the pending credential are objects owned by the SDK; the code only
  passes them on, so each is a tagged identifier.
\<close>

datatype User = User string

datatype AuthCredential = AuthCredential string

text \<open>
  A thrown or rejected value. The catch block of \<open>signInWithProvider\<close> reads the
  own properties \<open>email\<close>, \<open>credential\<close> and \<open>code\<close> of it; a property that
  the object does not carry is \<open>None\<close>. \<open>customData_email\<close> is the property
  \<open>customData.email\<close>, where the modular SDK that the source imports puts the email
  of the account; the code never reads it. \<open>new Error(msg)\<close> carries a message only.
\<close>

record FirebaseError =
  message :: string
  code :: "string option"
  email :: "string option"
  credential :: "AuthCredential option"
  customData_email :: "string option"

definition Error :: "string \<Rightarrow> FirebaseError" where
  "Error msg =
     \<lparr>message = msg, code = None, email = None, credential = None, customData_email = None\<rparr>"

text \<open>
  The result of a sign-in. The SDK declares \<open>user\<close> as never null, but the code tests
  \<open>result.user\<close> before linking, so the model keeps the test: \<open>None\<close> is a null user.
\<close>

record UserCredential =
  uc_user :: "User option"

datatype jsval =
    JUndefined
  | JNull
  | JBool bool
  | JString string
  | JUser User
  | JError FirebaseError
  | JCredential UserCredential

text \<open>JavaScript truthiness, as \<open>!x\<close> and \<open>x && y\<close> use it.\<close>

fun truthy :: "jsval \<Rightarrow> bool" where
  "truthy JUndefined = False"
| "truthy JNull = False"
| "truthy (JBool b) = b"
| "truthy (JString s) = (s \<noteq> [])"
| "truthy (JUser _) = True"
| "truthy (JError _) = True"
| "truthy (JCredential _) = True"

text \<open>Truthiness of an optional string property and of an optional object property.\<close>

fun truthy_string :: "string option \<Rightarrow> bool" where
  "truthy_string None = False"
| "truthy_string (Some s) = (s \<noteq> [])"

fun truthy_object :: "'a option \<Rightarrow> bool" where
  "truthy_object None = False"
| "truthy_object (Some _) = True"

section \<open>The state container (use-reduced-state)\<close>

text \<open>
  A state and a patch are JavaScript objects: a finite map from property names to values.
  A property that is present with the value \<open>undefined\<close> is \<open>Some JUndefined\<close>; a
  property that is absent is \<open>None\<close>. The properties in use are \<open>user\<close>,
  \<open>loading\<close>, \<open>error\<close> and \<open>firstCheck\<close>.
\<close>

type_synonym State = "string \<rightharpoonup> jsval"

text \<open>
  The reducer handed to \<open>useReducer\<close>:
  \<^verbatim>\<open>(oldState, newState) => ({ ...oldState, ...newState })\<close>.
  The spread copies the own properties of \<open>oldState\<close>, then those of \<open>newState\<close>
  over them.
\<close>

definition reduce :: "State \<Rightarrow> State \<Rightarrow> State" where
  "reduce oldState newState = oldState ++ newState"

text \<open>Reading a property, as destructuring does: an absent property reads \<open>undefined\<close>.\<close>

definition getprop :: "State \<Rightarrow> string \<Rightarrow> jsval" where
  "getprop s k = (case s k of None \<Rightarrow> JUndefined | Some v \<Rightarrow> v)"

text \<open>
  The specification's reading of two updates in sequence: per field, the last writer wins.
  This definition follows the specification's words and is compared with \<open>reduce\<close>.
\<close>

definition last_writer_wins :: "State \<Rightarrow> State \<Rightarrow> State \<Rightarrow> State" where
  "last_writer_wins s p1 p2 =
     (\<lambda>k. case p2 k of
            Some v \<Rightarrow> Some v
          | None \<Rightarrow> (case p1 k of Some v \<Rightarrow> Some v | None \<Rightarrow> s k))"

section \<open>The SDK as an environment\<close>

text \<open>
  A provider object. The class decides \<open>instanceof OAuthProvider\<close>; \<open>scopes\<close> holds
  the arguments of the \<open>addScope\<close> calls made on the object, in call order, and
  \<open>customParameters\<close> the object last given to \<open>setCustomParameters\<close>. In the SDK
  the four named classes and \<open>OAuthProvider\<close> are siblings, so only an object built
  by \<open>new OAuthProvider(id)\<close> is an instance of \<open>OAuthProvider\<close>.
\<close>

datatype provider_class =
    GoogleAuthProvider
  | FacebookAuthProvider
  | TwitterAuthProvider
  | GithubAuthProvider
  | OAuthProvider string
  | OtherAuthProvider string

record AuthProvider =
  cls :: provider_class
  scopes :: "string list"
  customParameters :: "(string \<times> string) list"

definition new :: "provider_class \<Rightarrow> AuthProvider" where
  "new c = \<lparr>cls = c, scopes = [], customParameters = []\<rparr>"

definition addScope :: "string \<Rightarrow> AuthProvider \<Rightarrow> AuthProvider" where
  "addScope scope p = p\<lparr>scopes := scopes p @ [scope]\<rparr>"

definition setCustomParameters :: "(string \<times> string) list \<Rightarrow> AuthProvider \<Rightarrow> AuthProvider" where
  "setCustomParameters ps p = p\<lparr>customParameters := ps\<rparr>"

text \<open>The first argument of \<open>signInWithProvider\<close>: \<open>string | AuthProvider\<close>.\<close>

datatype provider_arg = ProviderName string | ProviderObject AuthProvider

text \<open>\<open>provider instanceof OAuthProvider\<close>: a string is an instance of no class.\<close>

fun instanceof_OAuthProvider :: "provider_arg \<Rightarrow> bool" where
  "instanceof_OAuthProvider (ProviderName _) = False"
| "instanceof_OAuthProvider (ProviderObject p) =
     (case cls p of OAuthProvider _ \<Rightarrow> True | _ \<Rightarrow> False)"

text \<open>The calls made to the SDK, recorded in the order in which the code makes them.\<close>

datatype sdk_call =
    Call_getAuth
  | Call_onAuthStateChanged
  | Call_useDeviceLanguage
  | Call_signInWithPopup AuthProvider
  | Call_fetchSignInMethodsForEmail string
  | Call_linkWithCredential User AuthCredential
  | Call_firebaseSignInWithEmailAndPassword string string
  | Call_firebaseSignOut
  | Call_firebaseCreateUserWithEmailAndPassword string string
  | Call_firebaseSendPasswordResetEmail string
  | Call_firebaseVerifyPasswordResetCode string
  | Call_firebaseConfirmPasswordReset string string
  | Call_firebaseApplyActionCode string
  | Call_firebaseUpdateProfile jsval "string option" "string option"
  | Call_firebaseUpdatePassword jsval string

text \<open>How a promise settles.\<close>

datatype 'a settled = Resolved 'a | Rejected FirebaseError

text \<open>
  What a call gives back to its caller at once: an exception thrown synchronously, or a
  value. An \<open>async function\<close> always gives back a promise.
\<close>

datatype 'a completion = Throws FirebaseError | Returns 'a

text \<open>
  The SDK is outside the repository. Its three \<open>PROVIDER_ID\<close> constants and the way
  each of its promises settles are parameters of the model. The popup may answer
  differently each time it is opened, so its answer also depends on the calls made so far.
\<close>

record sdk =
  GoogleAuthProvider_PROVIDER_ID :: string
  FacebookAuthProvider_PROVIDER_ID :: string
  GithubAuthProvider_PROVIDER_ID :: string
  signInWithPopup :: "sdk_call list \<Rightarrow> AuthProvider \<Rightarrow> UserCredential settled"
  fetchSignInMethodsForEmail :: "string \<Rightarrow> string list settled"
  linkWithCredential :: "User \<Rightarrow> AuthCredential \<Rightarrow> UserCredential settled"
  firebaseSignInWithEmailAndPassword :: "string \<Rightarrow> string \<Rightarrow> UserCredential settled"
  firebaseSignOut :: "unit settled"
  firebaseCreateUserWithEmailAndPassword :: "string \<Rightarrow> string \<Rightarrow> UserCredential settled"
  firebaseSendPasswordResetEmail :: "string \<Rightarrow> unit settled"
  firebaseVerifyPasswordResetCode :: "string \<Rightarrow> string settled"
  firebaseConfirmPasswordReset :: "string \<Rightarrow> string \<Rightarrow> unit settled"
  firebaseApplyActionCode :: "string \<Rightarrow> unit settled"
  firebaseUpdateProfile :: "jsval \<Rightarrow> string option \<Rightarrow> string option \<Rightarrow> unit settled"
  firebaseUpdatePassword :: "jsval \<Rightarrow> string \<Rightarrow> unit settled"

section \<open>The provider component\<close>

text \<open>What the code changes: the reduced state and the calls made to the SDK so far.\<close>

record world =
  state :: State
  calls :: "sdk_call list"

text \<open>\<open>setState(patch)\<close> dispatches the patch to the reducer.\<close>

definition setState :: "State \<Rightarrow> world \<Rightarrow> world" where
  "setState patch w = w\<lparr>state := reduce (state w) patch\<rparr>"

definition invoke :: "sdk_call \<Rightarrow> world \<Rightarrow> world" where
  "invoke c w = w\<lparr>calls := calls w @ [c]\<rparr>"

text \<open>
  The first render of \<open>FirebaseAuthProvider\<close>: \<open>auth.currentUser\<close> is the argument
  (\<open>None\<close> for null), and \<open>useReducer\<close> starts from the initial state.
\<close>

definition FirebaseAuthProvider_init :: "User option \<Rightarrow> world" where
  "FirebaseAuthProvider_init firebaseCurrentUser =
     \<lparr>state = [''user'' \<mapsto> (case firebaseCurrentUser of None \<Rightarrow> JUndefined | Some u \<Rightarrow> JUser u),
               ''loading'' \<mapsto> JBool False,
               ''firstCheck'' \<mapsto> JBool False],
      calls = [Call_getAuth]\<rparr>"

text \<open>The mount effect: \<open>!user && setState({ loading: true })\<close>, then the subscription.\<close>

definition FirebaseAuthProvider_effect :: "world \<Rightarrow> world" where
  "FirebaseAuthProvider_effect w =
     invoke Call_onAuthStateChanged
       (if \<not> truthy (getprop (state w) ''user'')
        then setState [''loading'' \<mapsto> JBool True] w else w)"

text \<open>The callback given to \<open>onAuthStateChanged\<close>, run at each notification.\<close>

definition authStateChanged :: "User option \<Rightarrow> world \<Rightarrow> world" where
  "authStateChanged u w =
     setState [''loading'' \<mapsto> JBool False,
               ''user'' \<mapsto> (case u of None \<Rightarrow> JUndefined | Some x \<Rightarrow> JUser x),
               ''firstCheck'' \<mapsto> JBool True] w"

text \<open>
  The context value of a render. There is one application handle, and \<open>setState\<close> acts
  on the world, so neither is a field.
\<close>

record FirebaseContext =
  user :: jsval
  loading :: jsval
  error :: jsval
  firstCheck :: jsval

definition context_value :: "world \<Rightarrow> FirebaseContext" where
  "context_value w =
     \<lparr>user = getprop (state w) ''user'',
      loading = getprop (state w) ''loading'',
      error = getprop (state w) ''error'',
      firstCheck = getprop (state w) ''firstCheck''\<rparr>"

section \<open>The facade returned by the hook\<close>

text \<open>The string enum \<open>SIGNIN_PROVIDERS\<close>.\<close>

definition PASSWORD :: string where "PASSWORD = ''password''"
definition GOOGLE :: string where "GOOGLE = ''google''"
definition FACEBOOK :: string where "FACEBOOK = ''facebook''"
definition TWITTER :: string where "TWITTER = ''twitter''"
definition GITHUB :: string where "GITHUB = ''github''"
definition MICROSOFT :: string where "MICROSOFT = ''microsoft''"
definition YAHOO :: string where "YAHOO = ''yahoo''"

definition SIGNIN_PROVIDERS :: "string list" where
  "SIGNIN_PROVIDERS = [PASSWORD, GOOGLE, FACEBOOK, TWITTER, GITHUB, MICROSOFT, YAHOO]"

text \<open>
  The body of an \<open>async function\<close> ends by an exception that leaves it (\<open>Inl\<close>) or
  by a returned value (\<open>Inr\<close>); the caller gets a promise in both cases, rejected with
  the exception or resolved with the value. Awaiting or returning a rejected promise
  raises its error in the body.
\<close>

definition async :: "(FirebaseError + jsval) \<times> world \<Rightarrow> jsval settled completion \<times> world" where
  "async r =
     (case fst r of
        Inl e \<Rightarrow> (Returns (Rejected e), snd r)
      | Inr v \<Rightarrow> (Returns (Resolved v), snd r))"

fun settle_void :: "unit settled \<Rightarrow> FirebaseError + jsval" where
  "settle_void (Resolved _) = Inr JUndefined"
| "settle_void (Rejected e) = Inl e"

text \<open>The \<open>switch\<close> of \<open>signInWithProvider\<close> over the provider argument.\<close>

fun resolve_provider :: "provider_arg \<Rightarrow> FirebaseError + AuthProvider" where
  "resolve_provider (ProviderName provider) =
     (if provider = GOOGLE then Inr (new GoogleAuthProvider)
      else if provider = FACEBOOK then Inr (new FacebookAuthProvider)
      else if provider = TWITTER then Inr (new TwitterAuthProvider)
      else if provider = GITHUB then Inr (new GithubAuthProvider)
      else if provider = MICROSOFT then Inr (new (OAuthProvider ''microsoft.com''))
      else if provider = YAHOO then Inr (new (OAuthProvider ''yahoo.com''))
      else Inl (Error (''Unrecognized provider: '' @ provider)))"
| "resolve_provider (ProviderObject provider) = Inr provider"

text \<open>
  \<open>options && Array.isArray(options.scopes) ? options.scopes : []\<close>; the outer
  \<open>None\<close> is a missing \<open>options\<close>, the inner one a missing \<open>scopes\<close>.
\<close>

fun requested_scopes :: "string list option option \<Rightarrow> string list" where
  "requested_scopes None = []"
| "requested_scopes (Some None) = []"
| "requested_scopes (Some (Some xs)) = xs"

text \<open>
  The test of the catch block,
  \<open>e.email && e.credential && e.code === "auth/account-exists-with-different-credential"\<close>,
  giving the email and the pending credential when it holds.
\<close>

definition account_exists :: "FirebaseError \<Rightarrow> (string \<times> AuthCredential) option" where
  "account_exists e =
     (if truthy_string (email e) \<and> truthy_object (credential e)
         \<and> code e = Some ''auth/account-exists-with-different-credential''
      then (case email e of
              None \<Rightarrow> None
            | Some em \<Rightarrow> (case credential e of None \<Rightarrow> None | Some cr \<Rightarrow> Some (em, cr)))
      else None)"

definition supportedPopupSignInMethods :: "sdk \<Rightarrow> string list" where
  "supportedPopupSignInMethods k =
     [GoogleAuthProvider_PROVIDER_ID k, FacebookAuthProvider_PROVIDER_ID k,
      GithubAuthProvider_PROVIDER_ID k]"

definition getProvider :: "sdk \<Rightarrow> string \<Rightarrow> FirebaseError + AuthProvider" where
  "getProvider k providerId =
     (if providerId = GoogleAuthProvider_PROVIDER_ID k then Inr (new GoogleAuthProvider)
      else if providerId = FacebookAuthProvider_PROVIDER_ID k then Inr (new FacebookAuthProvider)
      else if providerId = GithubAuthProvider_PROVIDER_ID k then Inr (new GithubAuthProvider)
      else Inl (Error (''No provider implemented for '' @ providerId)))"

definition unsupported_message :: string where
  "unsupported_message = ''Your account is linked to a provider that isn't supported.''"

text \<open>
  The first branch of the catch block, from \<open>fetchSignInMethodsForEmail\<close> on.
  \<open>!firstPopupProviderMethod\<close> holds when \<open>find\<close> gave \<open>undefined\<close> and also
  when it gave the empty string. The promise of \<open>linkWithCredential\<close> is dropped.
\<close>

definition link_existing_account ::
  "sdk \<Rightarrow> string \<Rightarrow> AuthCredential \<Rightarrow> world \<Rightarrow> (FirebaseError + jsval) \<times> world" where
  "link_existing_account k em cr w =
     (let w1 = invoke (Call_fetchSignInMethodsForEmail em) w in
      case fetchSignInMethodsForEmail k em of
        Rejected e2 \<Rightarrow> (Inl e2, w1)
      | Resolved providers \<Rightarrow>
          (case find (\<lambda>p. p \<in> set (supportedPopupSignInMethods k)) providers of
             None \<Rightarrow> (Inl (Error unsupported_message), w1)
           | Some firstPopupProviderMethod \<Rightarrow>
               if firstPopupProviderMethod = [] then (Inl (Error unsupported_message), w1)
               else
                 (case getProvider k firstPopupProviderMethod of
                    Inl e3 \<Rightarrow> (Inl e3, w1)
                  | Inr p \<Rightarrow>
                      (let linkedProvider = setCustomParameters [(''login_hint'', em)] p;
                           w2 = invoke (Call_signInWithPopup linkedProvider) w1
                       in case signInWithPopup k (calls w1) linkedProvider of
                            Rejected e4 \<Rightarrow> (Inl e4, w2)
                          | Resolved result \<Rightarrow>
                              (Inr JNull,
                               case uc_user result of
                                 None \<Rightarrow> w2
                               | Some u \<Rightarrow> invoke (Call_linkWithCredential u cr) w2)))))"

definition signInWithProvider_body ::
  "provider_arg \<Rightarrow> string list option option \<Rightarrow> sdk \<Rightarrow> world
     \<Rightarrow> (FirebaseError + jsval) \<times> world" where
  "signInWithProvider_body provider options k w =
     (let w1 = invoke Call_useDeviceLanguage
                 (setState [''loading'' \<mapsto> JBool True] (invoke Call_getAuth w))
      in case resolve_provider provider of
           Inl e \<Rightarrow> (Inl e, w1)
         | Inr p \<Rightarrow>
             (let providerObj =
                    (if instanceof_OAuthProvider provider
                     then fold addScope (requested_scopes options) p else p);
                  w2 = invoke (Call_signInWithPopup providerObj) w1
              in case signInWithPopup k (calls w1) providerObj of
                   Resolved userCredential \<Rightarrow> (Inr (JCredential userCredential), w2)
                 | Rejected e \<Rightarrow>
                     (case account_exists e of
                        Some (em, cr) \<Rightarrow> link_existing_account k em cr w2
                      | None \<Rightarrow>
                          (Inr JNull,
                           setState [''error'' \<mapsto> JError e, ''loading'' \<mapsto> JBool False] w2))))"

type_synonym operation = "sdk \<Rightarrow> world \<Rightarrow> jsval settled completion \<times> world"

definition signInWithProvider :: "provider_arg \<Rightarrow> string list option option \<Rightarrow> operation" where
  "signInWithProvider provider options k w = async (signInWithProvider_body provider options k w)"

text \<open>
  \<open>return firebaseSignInWithEmailAndPassword(auth, email, password).catch(...)\<close>: the
  handler stores the error and returns nothing, so the promise resolves with
  \<open>undefined\<close>.
\<close>

definition signInWithEmailAndPassword :: "string \<Rightarrow> string \<Rightarrow> operation" where
  "signInWithEmailAndPassword em password k w =
     async
       (let w1 = invoke (Call_firebaseSignInWithEmailAndPassword em password)
                   (setState [''loading'' \<mapsto> JBool True] (invoke Call_getAuth w))
        in case firebaseSignInWithEmailAndPassword k em password of
             Resolved userCredential \<Rightarrow> (Inr (JCredential userCredential), w1)
           | Rejected e \<Rightarrow>
               (Inr JUndefined,
                setState [''error'' \<mapsto> JError e, ''loading'' \<mapsto> JBool False] w1))"

definition signOut :: operation where
  "signOut k w =
     async
       (settle_void (firebaseSignOut k),
        invoke Call_firebaseSignOut
          (setState [''loading'' \<mapsto> JBool True] (invoke Call_getAuth w)))"

definition createUserWithEmailAndPassword :: "string \<Rightarrow> string \<Rightarrow> operation" where
  "createUserWithEmailAndPassword em password k w =
     async
       (let w1 = invoke (Call_firebaseCreateUserWithEmailAndPassword em password)
                   (setState [''loading'' \<mapsto> JBool True] (invoke Call_getAuth w))
        in case firebaseCreateUserWithEmailAndPassword k em password of
             Resolved userCredential \<Rightarrow> (Inr (JCredential userCredential), w1)
           | Rejected e \<Rightarrow>
               (Inr JUndefined,
                setState [''error'' \<mapsto> JError e, ''loading'' \<mapsto> JBool False] w1))"

definition sendPasswordResetEmail :: "string \<Rightarrow> operation" where
  "sendPasswordResetEmail em k w =
     async
       (settle_void (firebaseSendPasswordResetEmail k em),
        invoke (Call_firebaseSendPasswordResetEmail em) (invoke Call_getAuth w))"

definition verifyPasswordResetCode :: "string \<Rightarrow> operation" where
  "verifyPasswordResetCode c k w =
     async
       (case firebaseVerifyPasswordResetCode k c of
          Resolved s \<Rightarrow> Inr (JString s)
        | Rejected e \<Rightarrow> Inl e,
        invoke (Call_firebaseVerifyPasswordResetCode c) (invoke Call_getAuth w))"

definition confirmPasswordReset :: "string \<Rightarrow> string \<Rightarrow> operation" where
  "confirmPasswordReset c newPassword k w =
     async
       (settle_void (firebaseConfirmPasswordReset k c newPassword),
        invoke (Call_firebaseConfirmPasswordReset c newPassword) (invoke Call_getAuth w))"

definition applyActionCode :: "string \<Rightarrow> operation" where
  "applyActionCode c k w =
     async
       (settle_void (firebaseApplyActionCode k c),
        invoke (Call_firebaseApplyActionCode c) (invoke Call_getAuth w))"

text \<open>
  \<open>updateProfile\<close> and \<open>updatePassword\<close> read \<open>user\<close> from the context value the
  hook was called with.
\<close>

definition updateProfile :: "FirebaseContext \<Rightarrow> string option \<Rightarrow> string option \<Rightarrow> operation" where
  "updateProfile ctx displayName photoURL k w =
     async
       (if \<not> truthy (user ctx) then (Inl (Error ''User is not logged in''), w)
        else (settle_void (firebaseUpdateProfile k (user ctx) displayName photoURL),
              invoke (Call_firebaseUpdateProfile (user ctx) displayName photoURL) w))"

definition updatePassword :: "FirebaseContext \<Rightarrow> string \<Rightarrow> operation" where
  "updatePassword ctx newPassword k w =
     async
       (if \<not> truthy (user ctx) then (Inl (Error ''User is not logged in''), w)
        else (settle_void (firebaseUpdatePassword k (user ctx) newPassword),
              invoke (Call_firebaseUpdatePassword (user ctx) newPassword) w))"

text \<open>The object returned by \<open>useFirebaseAuth\<close>.\<close>

record hook =
  h_user :: jsval
  h_loading :: jsval
  h_error :: jsval
  h_firstCheck :: jsval
  h_signInWithEmailAndPassword :: "string \<Rightarrow> string \<Rightarrow> operation"
  h_signInWithProvider :: "provider_arg \<Rightarrow> string list option option \<Rightarrow> operation"
  h_signOut :: operation
  h_createUserWithEmailAndPassword :: "string \<Rightarrow> string \<Rightarrow> operation"
  h_sendPasswordResetEmail :: "string \<Rightarrow> operation"
  h_verifyPasswordResetCode :: "string \<Rightarrow> operation"
  h_confirmPasswordReset :: "string \<Rightarrow> string \<Rightarrow> operation"
  h_updateProfile :: "string option \<Rightarrow> string option \<Rightarrow> operation"
  h_updatePassword :: "string \<Rightarrow> operation"
  h_applyActionCode :: "string \<Rightarrow> operation"

text \<open>
  \<open>useFirebaseAuth\<close> is not \<open>async\<close>: its \<open>throw\<close> reaches the caller at once.
  The argument is the value of \<open>useContext(FirebaseContext)\<close>, \<open>None\<close> for null.
\<close>

definition useFirebaseAuth :: "FirebaseContext option \<Rightarrow> hook completion" where
  "useFirebaseAuth firebaseContext =
     (case firebaseContext of
        None \<Rightarrow> Throws (Error ''No FirebaseAuthProvider found.'')
      | Some ctx \<Rightarrow>
          Returns
            \<lparr>h_user = user ctx,
             h_loading = loading ctx,
             h_error = error ctx,
             h_firstCheck = firstCheck ctx,
             h_signInWithEmailAndPassword = signInWithEmailAndPassword,
             h_signInWithProvider = signInWithProvider,
             h_signOut = signOut,
             h_createUserWithEmailAndPassword = createUserWithEmailAndPassword,
             h_sendPasswordResetEmail = sendPasswordResetEmail,
             h_verifyPasswordResetCode = verifyPasswordResetCode,
             h_confirmPasswordReset = confirmPasswordReset,
             h_updateProfile = updateProfile ctx,
             h_updatePassword = updatePassword ctx,
             h_applyActionCode = applyActionCode\<rparr>)"

section \<open>Runs of the component\<close>

text \<open>One call of a facade function, with its arguments.\<close>

datatype facade_call =
    SignInWithProvider provider_arg "string list option option"
  | SignInWithEmailAndPassword string string
  | SignOut
  | CreateUserWithEmailAndPassword string string
  | SendPasswordResetEmail string
  | VerifyPasswordResetCode string
  | ConfirmPasswordReset string string
  | ApplyActionCode string
  | UpdateProfile "string option" "string option"
  | UpdatePassword string

fun perform :: "FirebaseContext \<Rightarrow> facade_call \<Rightarrow> operation" where
  "perform ctx (SignInWithProvider provider options) = signInWithProvider provider options"
| "perform ctx (SignInWithEmailAndPassword em password) = signInWithEmailAndPassword em password"
| "perform ctx SignOut = signOut"
| "perform ctx (CreateUserWithEmailAndPassword em password) =
     createUserWithEmailAndPassword em password"
| "perform ctx (SendPasswordResetEmail em) = sendPasswordResetEmail em"
| "perform ctx (VerifyPasswordResetCode c) = verifyPasswordResetCode c"
| "perform ctx (ConfirmPasswordReset c newPassword) = confirmPasswordReset c newPassword"
| "perform ctx (ApplyActionCode c) = applyActionCode c"
| "perform ctx (UpdateProfile displayName photoURL) = updateProfile ctx displayName photoURL"
| "perform ctx (UpdatePassword newPassword) = updatePassword ctx newPassword"

text \<open>
  What happens to a mounted provider: a notification of the auth-state stream, or a
  facade call made from some render's context, with the SDK answering in some way.
\<close>

datatype event =
    AuthStateChanged "User option"
  | FacadeCall FirebaseContext facade_call sdk

fun step :: "event \<Rightarrow> world \<Rightarrow> world" where
  "step (AuthStateChanged u) w = authStateChanged u w"
| "step (FacadeCall ctx c k) w = snd (perform ctx c k w)"

fun is_notification :: "event \<Rightarrow> bool" where
  "is_notification (AuthStateChanged _) = True"
| "is_notification (FacadeCall _ _ _) = False"

definition run :: "event list \<Rightarrow> world \<Rightarrow> world" where
  "run evs w = fold step evs w"

text \<open>The provider after its first render and its mount effect.\<close>

definition mounted :: "User option \<Rightarrow> world" where
  "mounted firebaseCurrentUser =
     FirebaseAuthProvider_effect (FirebaseAuthProvider_init firebaseCurrentUser)"

section \<open>A concrete SDK\<close>

text \<open>
  An SDK with the published provider identifiers, in which every call succeeds. The
  examples below change single answers of it.
\<close>

definition example_sdk :: sdk where
  "example_sdk =
     \<lparr>GoogleAuthProvider_PROVIDER_ID = ''google.com'',
      FacebookAuthProvider_PROVIDER_ID = ''facebook.com'',
      GithubAuthProvider_PROVIDER_ID = ''github.com'',
      signInWithPopup = (\<lambda>h p. Resolved \<lparr>uc_user = Some (User ''u1'')\<rparr>),
      fetchSignInMethodsForEmail = (\<lambda>em. Resolved [''password'', ''github.com'']),
      linkWithCredential = (\<lambda>u c. Resolved \<lparr>uc_user = Some u\<rparr>),
      firebaseSignInWithEmailAndPassword = (\<lambda>em pw. Resolved \<lparr>uc_user = Some (User ''u1'')\<rparr>),
      firebaseSignOut = Resolved (),
      firebaseCreateUserWithEmailAndPassword = (\<lambda>em pw. Resolved \<lparr>uc_user = Some (User ''u2'')\<rparr>),
      firebaseSendPasswordResetEmail = (\<lambda>em. Resolved ()),
      firebaseVerifyPasswordResetCode = (\<lambda>c. Resolved ''a@b.c''),
      firebaseConfirmPasswordReset = (\<lambda>c pw. Resolved ()),
      firebaseApplyActionCode = (\<lambda>c. Resolved ()),
      firebaseUpdateProfile = (\<lambda>u dn ph. Resolved ()),
      firebaseUpdatePassword = (\<lambda>u pw. Resolved ())\<rparr>"

text \<open>An SDK in which every promise rejects with a network error.\<close>

definition network_error :: FirebaseError where
  "network_error =
     \<lparr>message = ''Firebase: Error (auth/network-request-failed).'',
      code = Some ''auth/network-request-failed'', email = None, credential = None,
      customData_email = None\<rparr>"

definition failing_sdk :: sdk where
  "failing_sdk =
     example_sdk
       \<lparr>signInWithPopup := (\<lambda>h p. Rejected network_error),
        fetchSignInMethodsForEmail := (\<lambda>em. Rejected network_error),
        linkWithCredential := (\<lambda>u c. Rejected network_error),
        firebaseSignInWithEmailAndPassword := (\<lambda>em pw. Rejected network_error),
        firebaseSignOut := Rejected network_error,
        firebaseCreateUserWithEmailAndPassword := (\<lambda>em pw. Rejected network_error),
        firebaseSendPasswordResetEmail := (\<lambda>em. Rejected network_error),
        firebaseVerifyPasswordResetCode := (\<lambda>c. Rejected network_error),
        firebaseConfirmPasswordReset := (\<lambda>c pw. Rejected network_error),
        firebaseApplyActionCode := (\<lambda>c. Rejected network_error),
        firebaseUpdateProfile := (\<lambda>u dn ph. Rejected network_error),
        firebaseUpdatePassword := (\<lambda>u pw. Rejected network_error)\<rparr>"

text \<open>The context of a render with a signed-in user.\<close>

definition signed_in_context :: FirebaseContext where
  "signed_in_context = context_value (mounted (Some (User ''u1'')))"

text \<open>
  An account-exists error that has \<open>email\<close> and \<open>credential\<close> as own
  properties, the shape the test of the catch block asks for, and an SDK whose popup fails
  with it until the sign-in methods have been looked up, and succeeds afterwards; the
  account's methods are \<open>password\<close> and \<open>github.com\<close>. In the second SDK the
  account has no supported method.
\<close>

definition conflict_error :: FirebaseError where
  "conflict_error =
     \<lparr>message = ''Firebase: Error (auth/account-exists-with-different-credential).'',
      code = Some ''auth/account-exists-with-different-credential'',
      email = Some ''ann@example.org'',
      credential = Some (AuthCredential ''pending''),
      customData_email = None\<rparr>"

definition conflict_sdk :: sdk where
  "conflict_sdk =
     example_sdk
       \<lparr>signInWithPopup :=
          (\<lambda>h p. if Call_fetchSignInMethodsForEmail ''ann@example.org'' \<in> set h
                 then Resolved \<lparr>uc_user = Some (User ''u1'')\<rparr>
                 else Rejected conflict_error)\<rparr>"

definition unsupported_sdk :: sdk where
  "unsupported_sdk =
     conflict_sdk\<lparr>fetchSignInMethodsForEmail := (\<lambda>em. Resolved [''password'', ''twitter.com''])\<rparr>"

text \<open>
  The account-exists error as the modular SDK builds it: the email is under
  \<open>customData\<close>, the pending credential is to be recovered from the error with
  \<open>OAuthProvider.credentialFromError\<close>, and the object has no own \<open>email\<close> or
  \<open>credential\<close> property. The popup of the SDK below always fails with it; the
  account's methods are \<open>password\<close> and \<open>github.com\<close>, and in the second SDK
  \<open>password\<close> and \<open>twitter.com\<close>.
\<close>

definition modular_conflict_error :: FirebaseError where
  "modular_conflict_error =
     \<lparr>message = ''Firebase: Error (auth/account-exists-with-different-credential).'',
      code = Some ''auth/account-exists-with-different-credential'',
      email = None,
      credential = None,
      customData_email = Some ''ann@example.org''\<rparr>"

definition modular_sdk :: sdk where
  "modular_sdk = example_sdk\<lparr>signInWithPopup := (\<lambda>h p. Rejected modular_conflict_error)\<rparr>"

definition modular_unsupported_sdk :: sdk where
  "modular_unsupported_sdk =
     modular_sdk\<lparr>fetchSignInMethodsForEmail := (\<lambda>em. Resolved [''password'', ''twitter.com''])\<rparr>"

section \<open>The state container: properties\<close>

lemma reduce_apply:
  "reduce s p k = (case p k of None \<Rightarrow> s k | Some v \<Rightarrow> Some v)"
  by (simp add: reduce_def map_add_def)

text \<open>
  Claim C2. The reducer is the shallow merge of the patch over the state: a field of the
  result is the patch's field where the patch has it and the state's field otherwise.
  Two updates in sequence give the field-wise last-writer-wins merge of the state and the
  two patches: a field absent from a patch keeps its previous value, and a field present
  in both patches takes the value of the second.
\<close>

theorem reduce_shallow_merge:
  "reduce s p = s ++ p
   \<and> (\<forall>k. reduce s p k = (case p k of None \<Rightarrow> s k | Some v \<Rightarrow> Some v))
   \<and> reduce (reduce s p1) p2 = last_writer_wins s p1 p2
   \<and> (\<forall>k. p k = None \<longrightarrow> reduce s p k = s k)
   \<and> (\<forall>k. p2 k = None \<longrightarrow> reduce (reduce s p1) p2 k = reduce s p1 k)
   \<and> (\<forall>k v1 v2. p1 k = Some v1 \<and> p2 k = Some v2 \<longrightarrow>
         reduce (reduce s p1) p2 k = Some v2)"
proof (intro conjI allI impI)
  show "reduce s p = s ++ p"
    by (simp add: reduce_def)
  show "reduce (reduce s p1) p2 = last_writer_wins s p1 p2"
  proof
    fix k
    show "reduce (reduce s p1) p2 k = last_writer_wins s p1 p2 k"
      by (simp add: reduce_apply last_writer_wins_def split: option.splits)
  qed
next
  fix k
  show "reduce s p k = (case p k of None \<Rightarrow> s k | Some v \<Rightarrow> Some v)"
    by (rule reduce_apply)
next
  fix k
  assume "p k = None"
  then show "reduce s p k = s k"
    by (simp add: reduce_apply)
next
  fix k
  assume "p2 k = None"
  then show "reduce (reduce s p1) p2 k = reduce s p1 k"
    by (simp add: reduce_apply)
next
  fix k v1 v2
  assume "p1 k = Some v1 \<and> p2 k = Some v2"
  then show "reduce (reduce s p1) p2 k = Some v2"
    by (simp add: reduce_apply)
qed

theorem reduce_shallow_merge_witness:
  "[''loading'' \<mapsto> JBool True] ''user'' = None
   \<and> [''loading'' \<mapsto> JBool True] ''loading'' = Some (JBool True)
   \<and> [''loading'' \<mapsto> JBool False, ''error'' \<mapsto> JNull] ''loading'' = Some (JBool False)
   \<and> reduce [''user'' \<mapsto> JUser (User ''u1''), ''loading'' \<mapsto> JBool False]
        [''loading'' \<mapsto> JBool True] ''user'' = Some (JUser (User ''u1''))
   \<and> reduce (reduce [''user'' \<mapsto> JUser (User ''u1''), ''loading'' \<mapsto> JBool False]
        [''loading'' \<mapsto> JBool True]) [''loading'' \<mapsto> JBool False, ''error'' \<mapsto> JNull]
        ''loading'' = Some (JBool False)"
proof -
  let ?s = "[''user'' \<mapsto> JUser (User ''u1''), ''loading'' \<mapsto> JBool False]"
  let ?p1 = "[''loading'' \<mapsto> JBool True]"
  let ?p2 = "[''loading'' \<mapsto> JBool False, ''error'' \<mapsto> JNull]"
  note t = reduce_shallow_merge [of ?s ?p1 ?p1 ?p2]
  have h1: "?p1 ''user'' = None" by simp
  have h2: "?p1 ''loading'' = Some (JBool True)" by simp
  have h3: "?p2 ''loading'' = Some (JBool False)" by simp
  from t have absent: "\<forall>k. ?p1 k = None \<longrightarrow> reduce ?s ?p1 k = ?s k"
    by (elim conjE)
  from t have both: "\<forall>k v1 v2. ?p1 k = Some v1 \<and> ?p2 k = Some v2 \<longrightarrow>
      reduce (reduce ?s ?p1) ?p2 k = Some v2"
    by (elim conjE)
  from absent h1 have c1: "reduce ?s ?p1 ''user'' = ?s ''user''"
    by blast
  have c1': "?s ''user'' = Some (JUser (User ''u1''))" by simp
  from both h2 h3 have c2: "reduce (reduce ?s ?p1) ?p2 ''loading'' = Some (JBool False)"
    by blast
  from h1 h2 h3 c1 c1' c2 show ?thesis
    by (simp only: simp_thms)
qed

section \<open>The provider and the facade: properties\<close>

lemma state_invoke [simp]: "state (invoke c w) = state w"
  by (simp add: invoke_def)

lemma calls_invoke [simp]: "calls (invoke c w) = calls w @ [c]"
  by (simp add: invoke_def)

lemma state_setState [simp]: "state (setState p w) = reduce (state w) p"
  by (simp add: setState_def)

lemma calls_setState [simp]: "calls (setState p w) = calls w"
  by (simp add: setState_def)

lemma snd_async [simp]: "snd (async r) = snd r"
  by (cases r) (simp add: async_def split: sum.splits)

lemma fst_async [simp]:
  "fst (async r) = (case fst r of Inl e \<Rightarrow> Returns (Rejected e) | Inr v \<Rightarrow> Returns (Resolved v))"
  by (cases r) (simp add: async_def split: sum.splits)

lemma async_Inl: "async (Inl e, w) = (Returns (Rejected e), w)"
  by (simp add: async_def)

lemma link_existing_account_state [simp]:
  "state (snd (link_existing_account k em cr w)) = state w"
  by (simp add: link_existing_account_def Let_def split: settled.splits option.splits sum.splits)

lemma signInWithProvider_firstCheck:
  "state (snd (signInWithProvider provider options k w)) ''firstCheck'' = state w ''firstCheck''"
  by (simp add: signInWithProvider_def signInWithProvider_body_def Let_def reduce_apply
      split: settled.splits option.splits sum.splits prod.splits)

lemma perform_firstCheck:
  "state (snd (perform ctx c k w)) ''firstCheck'' = state w ''firstCheck''"
  by (cases c)
    (simp_all add: signInWithProvider_firstCheck signInWithEmailAndPassword_def signOut_def
      createUserWithEmailAndPassword_def sendPasswordResetEmail_def verifyPasswordResetCode_def
      confirmPasswordReset_def applyActionCode_def updateProfile_def updatePassword_def
      Let_def reduce_apply split: settled.splits)

lemma step_firstCheck:
  "state (step ev w) ''firstCheck'' =
     (if is_notification ev then Some (JBool True) else state w ''firstCheck'')"
  by (cases ev) (simp_all add: perform_firstCheck authStateChanged_def reduce_apply)

lemma run_firstCheck:
  "state (run evs w) ''firstCheck'' =
     (if list_ex is_notification evs then Some (JBool True) else state w ''firstCheck'')"
  unfolding run_def
  by (induction evs arbitrary: w) (simp_all add: step_firstCheck)

lemma mounted_firstCheck: "state (mounted cu) ''firstCheck'' = Some (JBool False)"
  by (simp add: mounted_def FirebaseAuthProvider_effect_def FirebaseAuthProvider_init_def reduce_apply)

text \<open>
  Claim C6. Once \<open>firstCheck\<close> is true, no later state update sets it back to false,
  neither a notification of the auth-state stream nor a call of any facade function,
  whatever the SDK answers. From mount on it is false until the first notification and
  true from then on: it becomes true exactly once, at the first notification.
\<close>

theorem firstCheck_never_reverts:
  "(state w ''firstCheck'' = Some (JBool True) \<longrightarrow>
      state (step ev w) ''firstCheck'' = Some (JBool True))
   \<and> (state w ''firstCheck'' = Some (JBool True) \<longrightarrow>
      state (run evs w) ''firstCheck'' = Some (JBool True))
   \<and> state (run evs (mounted cu)) ''firstCheck'' = Some (JBool (list_ex is_notification evs))"
  by (simp add: step_firstCheck run_firstCheck mounted_firstCheck)

theorem firstCheck_never_reverts_witness:
  "state (authStateChanged None (mounted None)) ''firstCheck'' = Some (JBool True)
   \<and> state (step (FacadeCall (context_value (mounted None)) SignOut example_sdk)
         (authStateChanged None (mounted None))) ''firstCheck'' = Some (JBool True)
   \<and> state (run [FacadeCall (context_value (mounted None)) SignOut example_sdk,
                  AuthStateChanged (Some (User ''u1''))]
         (authStateChanged None (mounted None))) ''firstCheck'' = Some (JBool True)
   \<and> state (run [FacadeCall (context_value (mounted None)) SignOut example_sdk] (mounted None))
        ''firstCheck'' = Some (JBool False)"
proof -
  let ?w = "authStateChanged None (mounted None)"
  let ?ev = "FacadeCall (context_value (mounted None)) SignOut example_sdk"
  have h: "state ?w ''firstCheck'' = Some (JBool True)"
    by (simp add: authStateChanged_def reduce_apply)
  note t1 = firstCheck_never_reverts [of ?w ?ev "[?ev, AuthStateChanged (Some (User ''u1''))]" None]
  note t2 = firstCheck_never_reverts [of ?w ?ev "[?ev]" None]
  from t2 have c: "state (run [?ev] (mounted None)) ''firstCheck'' = Some (JBool False)"
    by simp
  from h t1 c show ?thesis
    by blast
qed

text \<open>
  Claim C7. \<open>useFirebaseAuth\<close> called with no ancestor provider (the context value is
  null) throws the configuration error synchronously and returns no facade.
\<close>

theorem useFirebaseAuth_without_provider:
  "useFirebaseAuth None = Throws (Error ''No FirebaseAuthProvider found.'')
   \<and> (\<forall>h. useFirebaseAuth None \<noteq> Returns h)"
  by (simp add: useFirebaseAuth_def)

text \<open>
  Claim C8. Without an authenticated user in the context, \<open>updateProfile\<close> and
  \<open>updatePassword\<close> raise the precondition error "User is not logged in" and leave
  the world as it was: no SDK call is made. With a user, each makes exactly one call, to
  the SDK's profile update and password update respectively.
\<close>

theorem update_requires_user:
  "(\<not> truthy (user ctx) \<longrightarrow>
      updateProfile ctx displayName photoURL k w
        = (Returns (Rejected (Error ''User is not logged in'')), w)
      \<and> updatePassword ctx newPassword k w
        = (Returns (Rejected (Error ''User is not logged in'')), w))
   \<and> (truthy (user ctx) \<longrightarrow>
      calls (snd (updateProfile ctx displayName photoURL k w))
        = calls w @ [Call_firebaseUpdateProfile (user ctx) displayName photoURL]
      \<and> calls (snd (updatePassword ctx newPassword k w))
        = calls w @ [Call_firebaseUpdatePassword (user ctx) newPassword])"
  by (simp add: updateProfile_def updatePassword_def async_Inl)

theorem update_requires_user_witness:
  "\<not> truthy (user (context_value (FirebaseAuthProvider_init None)))
   \<and> updateProfile (context_value (FirebaseAuthProvider_init None)) (Some ''Ann'') None example_sdk
        (FirebaseAuthProvider_init None)
       = (Returns (Rejected (Error ''User is not logged in'')), FirebaseAuthProvider_init None)
   \<and> updatePassword (context_value (FirebaseAuthProvider_init None)) ''secret'' example_sdk
        (FirebaseAuthProvider_init None)
       = (Returns (Rejected (Error ''User is not logged in'')), FirebaseAuthProvider_init None)
   \<and> truthy (user (context_value (FirebaseAuthProvider_init (Some (User ''u1'')))))
   \<and> calls (snd (updateProfile (context_value (FirebaseAuthProvider_init (Some (User ''u1''))))
        (Some ''Ann'') None example_sdk (FirebaseAuthProvider_init (Some (User ''u1'')))))
       = [Call_getAuth, Call_firebaseUpdateProfile (JUser (User ''u1'')) (Some ''Ann'') None]
   \<and> calls (snd (updatePassword (context_value (FirebaseAuthProvider_init (Some (User ''u1''))))
        ''secret'' example_sdk (FirebaseAuthProvider_init (Some (User ''u1'')))))
       = [Call_getAuth, Call_firebaseUpdatePassword (JUser (User ''u1'')) ''secret'']"
proof -
  let ?w0 = "FirebaseAuthProvider_init None"
  let ?w1 = "FirebaseAuthProvider_init (Some (User ''u1''))"
  have h0: "\<not> truthy (user (context_value ?w0))"
    by (simp add: context_value_def FirebaseAuthProvider_init_def getprop_def)
  have h1: "truthy (user (context_value ?w1))"
    by (simp add: context_value_def FirebaseAuthProvider_init_def getprop_def)
  have u1: "user (context_value ?w1) = JUser (User ''u1'')"
    by (simp add: context_value_def FirebaseAuthProvider_init_def getprop_def)
  have c1: "calls ?w1 = [Call_getAuth]"
    by (simp add: FirebaseAuthProvider_init_def)
  note t0 = update_requires_user [of "context_value ?w0" "Some ''Ann''" None example_sdk ?w0 "''secret''"]
  note t1 = update_requires_user [of "context_value ?w1" "Some ''Ann''" None example_sdk ?w1 "''secret''"]
  from h0 t0 h1 t1 u1 c1 show ?thesis
    by simp
qed

text \<open>
  Claim C9. The state of the first render holds \<open>user\<close> (the SDK's current user, or
  \<open>undefined\<close> when that is null), \<open>loading\<close> false and \<open>firstCheck\<close> false,
  and nothing else: no \<open>error\<close> field is set.
\<close>

theorem FirebaseAuthProvider_initial_state:
  "state (FirebaseAuthProvider_init None) ''user'' = Some JUndefined
   \<and> state (FirebaseAuthProvider_init (Some u)) ''user'' = Some (JUser u)
   \<and> state (FirebaseAuthProvider_init cu) ''loading'' = Some (JBool False)
   \<and> state (FirebaseAuthProvider_init cu) ''firstCheck'' = Some (JBool False)
   \<and> state (FirebaseAuthProvider_init cu) ''error'' = None
   \<and> dom (state (FirebaseAuthProvider_init cu)) = {''user'', ''loading'', ''firstCheck''}"
  by (auto simp add: FirebaseAuthProvider_init_def split: if_splits)

section \<open>The facade: rejections, provider resolution and account linking\<close>

lemma mounted_None_state:
  "state (mounted None) = [''user'' \<mapsto> JUndefined, ''loading'' \<mapsto> JBool True, ''firstCheck'' \<mapsto> JBool False]"
  by (rule ext)
    (simp add: mounted_def FirebaseAuthProvider_effect_def FirebaseAuthProvider_init_def
      getprop_def reduce_apply)

lemma mounted_None_calls: "calls (mounted None) = [Call_getAuth, Call_onAuthStateChanged]"
  by (simp add: mounted_def FirebaseAuthProvider_effect_def FirebaseAuthProvider_init_def
      getprop_def)

text \<open>
  Claim C3 as stated fails for \<open>signOut\<close>: when the SDK's sign-out rejects, the
  rejection reaches the caller, no \<open>error\<close> field is written and \<open>loading\<close>
  stays true.
\<close>

theorem signOut_rejection_propagates:
  "fst (signOut failing_sdk (mounted None)) = Returns (Rejected network_error)
   \<and> state (snd (signOut failing_sdk (mounted None))) ''error'' = None
   \<and> state (snd (signOut failing_sdk (mounted None))) ''loading'' = Some (JBool True)"
  by (simp add: signOut_def failing_sdk_def mounted_None_state reduce_apply)

lemma store_rejection_state:
  "reduce (reduce s [''loading'' \<mapsto> JBool True]) [''error'' \<mapsto> JError e, ''loading'' \<mapsto> JBool False]
     = s(''error'' \<mapsto> JError e, ''loading'' \<mapsto> JBool False)"
  by (rule ext) (simp add: reduce_apply)

text \<open>
  Claim C3, amended. \<open>signInWithEmailAndPassword\<close> and
  \<open>createUserWithEmailAndPassword\<close> catch the rejection of their SDK call: they resolve
  with \<open>undefined\<close>, and the state ends as the state before the call with \<open>error\<close>
  set to the rejection and \<open>loading\<close> set to false, every other field (so \<open>user\<close>)
  unchanged. The other operations have no handler: \<open>signOut\<close>, the password-reset,
  reset-code, action-code and update operations reject with the SDK's error and write no
  \<open>error\<close>; \<open>signOut\<close> leaves \<open>loading\<close> true.
\<close>

theorem rejection_stored_or_propagated:
  "(firebaseSignInWithEmailAndPassword k em pw = Rejected e \<longrightarrow>
      fst (signInWithEmailAndPassword em pw k w) = Returns (Resolved JUndefined)
      \<and> state (snd (signInWithEmailAndPassword em pw k w))
          = (state w)(''error'' \<mapsto> JError e, ''loading'' \<mapsto> JBool False))
   \<and> (firebaseCreateUserWithEmailAndPassword k em pw = Rejected e \<longrightarrow>
      fst (createUserWithEmailAndPassword em pw k w) = Returns (Resolved JUndefined)
      \<and> state (snd (createUserWithEmailAndPassword em pw k w))
          = (state w)(''error'' \<mapsto> JError e, ''loading'' \<mapsto> JBool False))
   \<and> (firebaseSignOut k = Rejected e \<longrightarrow>
      fst (signOut k w) = Returns (Rejected e)
      \<and> state (snd (signOut k w)) = reduce (state w) [''loading'' \<mapsto> JBool True])
   \<and> (firebaseSendPasswordResetEmail k em = Rejected e \<longrightarrow>
      fst (sendPasswordResetEmail em k w) = Returns (Rejected e)
      \<and> state (snd (sendPasswordResetEmail em k w)) = state w)
   \<and> (firebaseVerifyPasswordResetCode k c = Rejected e \<longrightarrow>
      fst (verifyPasswordResetCode c k w) = Returns (Rejected e)
      \<and> state (snd (verifyPasswordResetCode c k w)) = state w)
   \<and> (firebaseConfirmPasswordReset k c pw = Rejected e \<longrightarrow>
      fst (confirmPasswordReset c pw k w) = Returns (Rejected e)
      \<and> state (snd (confirmPasswordReset c pw k w)) = state w)
   \<and> (firebaseApplyActionCode k c = Rejected e \<longrightarrow>
      fst (applyActionCode c k w) = Returns (Rejected e)
      \<and> state (snd (applyActionCode c k w)) = state w)
   \<and> (truthy (user ctx) \<and> firebaseUpdateProfile k (user ctx) dn ph = Rejected e \<longrightarrow>
      fst (updateProfile ctx dn ph k w) = Returns (Rejected e)
      \<and> state (snd (updateProfile ctx dn ph k w)) = state w)
   \<and> (truthy (user ctx) \<and> firebaseUpdatePassword k (user ctx) pw = Rejected e \<longrightarrow>
      fst (updatePassword ctx pw k w) = Returns (Rejected e)
      \<and> state (snd (updatePassword ctx pw k w)) = state w)"
  by (simp add: signInWithEmailAndPassword_def createUserWithEmailAndPassword_def signOut_def
      sendPasswordResetEmail_def verifyPasswordResetCode_def confirmPasswordReset_def
      applyActionCode_def updateProfile_def updatePassword_def store_rejection_state)

lemma signed_in_context_user: "user signed_in_context = JUser (User ''u1'')"
  by (simp add: signed_in_context_def context_value_def mounted_def
      FirebaseAuthProvider_effect_def FirebaseAuthProvider_init_def getprop_def)

theorem rejection_stored_or_propagated_witness:
  "firebaseSignInWithEmailAndPassword failing_sdk ''ann@example.org'' ''secret''
       = Rejected network_error
   \<and> firebaseCreateUserWithEmailAndPassword failing_sdk ''ann@example.org'' ''secret''
       = Rejected network_error
   \<and> firebaseSignOut failing_sdk = Rejected network_error
   \<and> firebaseSendPasswordResetEmail failing_sdk ''ann@example.org'' = Rejected network_error
   \<and> firebaseVerifyPasswordResetCode failing_sdk ''oob'' = Rejected network_error
   \<and> firebaseConfirmPasswordReset failing_sdk ''oob'' ''secret'' = Rejected network_error
   \<and> firebaseApplyActionCode failing_sdk ''oob'' = Rejected network_error
   \<and> truthy (user signed_in_context)
   \<and> firebaseUpdateProfile failing_sdk (user signed_in_context) (Some ''Ann'') None
       = Rejected network_error
   \<and> firebaseUpdatePassword failing_sdk (user signed_in_context) ''secret''
       = Rejected network_error
   \<and> fst (signInWithEmailAndPassword ''ann@example.org'' ''secret'' failing_sdk (mounted None))
       = Returns (Resolved JUndefined)
   \<and> state (snd (signInWithEmailAndPassword ''ann@example.org'' ''secret'' failing_sdk
        (mounted None)))
       = [''user'' \<mapsto> JUndefined, ''firstCheck'' \<mapsto> JBool False,
          ''error'' \<mapsto> JError network_error, ''loading'' \<mapsto> JBool False]
   \<and> fst (createUserWithEmailAndPassword ''ann@example.org'' ''secret'' failing_sdk
        (mounted None)) = Returns (Resolved JUndefined)
   \<and> fst (signOut failing_sdk (mounted None)) = Returns (Rejected network_error)
   \<and> fst (updateProfile signed_in_context (Some ''Ann'') None failing_sdk (mounted None))
       = Returns (Rejected network_error)"
proof -
  note t = rejection_stored_or_propagated
    [where k = failing_sdk and em = "''ann@example.org''" and pw = "''secret''"
       and e = network_error and w = "mounted None" and c = "''oob''"
       and ctx = signed_in_context and dn = "Some ''Ann''" and ph = None]
  have h1: "firebaseSignInWithEmailAndPassword failing_sdk ''ann@example.org'' ''secret''
      = Rejected network_error"
    and h2: "firebaseCreateUserWithEmailAndPassword failing_sdk ''ann@example.org'' ''secret''
      = Rejected network_error"
    and h3: "firebaseSignOut failing_sdk = Rejected network_error"
    and h4: "firebaseSendPasswordResetEmail failing_sdk ''ann@example.org''
      = Rejected network_error"
    and h5: "firebaseVerifyPasswordResetCode failing_sdk ''oob'' = Rejected network_error"
    and h6: "firebaseConfirmPasswordReset failing_sdk ''oob'' ''secret'' = Rejected network_error"
    and h7: "firebaseApplyActionCode failing_sdk ''oob'' = Rejected network_error"
    and h8: "firebaseUpdateProfile failing_sdk (user signed_in_context) (Some ''Ann'') None
      = Rejected network_error"
    and h9: "firebaseUpdatePassword failing_sdk (user signed_in_context) ''secret''
      = Rejected network_error"
    by (simp_all add: failing_sdk_def)
  have h10: "truthy (user signed_in_context)"
    by (simp add: signed_in_context_user)
  have st: "(state (mounted None))(''error'' \<mapsto> JError network_error, ''loading'' \<mapsto> JBool False)
      = [''user'' \<mapsto> JUndefined, ''firstCheck'' \<mapsto> JBool False,
         ''error'' \<mapsto> JError network_error, ''loading'' \<mapsto> JBool False]"
    by (rule ext) (simp add: mounted_None_state)
  from t h1 have c1:
    "fst (signInWithEmailAndPassword ''ann@example.org'' ''secret'' failing_sdk (mounted None))
       = Returns (Resolved JUndefined)
     \<and> state (snd (signInWithEmailAndPassword ''ann@example.org'' ''secret'' failing_sdk
          (mounted None)))
       = (state (mounted None))(''error'' \<mapsto> JError network_error, ''loading'' \<mapsto> JBool False)"
    by blast
  from t h2 have c2:
    "fst (createUserWithEmailAndPassword ''ann@example.org'' ''secret'' failing_sdk
       (mounted None)) = Returns (Resolved JUndefined)"
    by blast
  from t h3 have c3: "fst (signOut failing_sdk (mounted None)) = Returns (Rejected network_error)"
    by blast
  from t h8 h10 have c8:
    "fst (updateProfile signed_in_context (Some ''Ann'') None failing_sdk (mounted None))
       = Returns (Rejected network_error)"
    by blast
  from h1 h2 h3 h4 h5 h6 h7 h8 h9 h10 c1 c2 c3 c8 st show ?thesis
    by (simp only: simp_thms)
qed

lemma calls_link_existing_account:
  "\<exists>rest. calls (snd (link_existing_account k em cr w))
      = calls w @ Call_fetchSignInMethodsForEmail em # rest"
  by (simp add: link_existing_account_def Let_def
      split: settled.splits option.splits sum.splits)

lemma resolve_provider_names:
  "resolve_provider (ProviderName GOOGLE) = Inr (new GoogleAuthProvider)"
  "resolve_provider (ProviderName FACEBOOK) = Inr (new FacebookAuthProvider)"
  "resolve_provider (ProviderName TWITTER) = Inr (new TwitterAuthProvider)"
  "resolve_provider (ProviderName GITHUB) = Inr (new GithubAuthProvider)"
  "resolve_provider (ProviderName MICROSOFT) = Inr (new (OAuthProvider ''microsoft.com''))"
  "resolve_provider (ProviderName YAHOO) = Inr (new (OAuthProvider ''yahoo.com''))"
  by (simp_all add: GOOGLE_def FACEBOOK_def TWITTER_def GITHUB_def MICROSOFT_def YAHOO_def)

lemma resolve_provider_unrecognized:
  "provider \<notin> {GOOGLE, FACEBOOK, TWITTER, GITHUB, MICROSOFT, YAHOO} \<Longrightarrow>
     resolve_provider (ProviderName provider) = Inl (Error (''Unrecognized provider: '' @ provider))"
  by simp

lemma signInWithProvider_opens_popup:
  assumes "resolve_provider provider = Inr p"
  shows "\<exists>rest. calls (snd (signInWithProvider provider options k w))
           = calls w @ [Call_getAuth, Call_useDeviceLanguage,
                        Call_signInWithPopup
                          (if instanceof_OAuthProvider provider
                           then fold addScope (requested_scopes options) p else p)] @ rest"
proof -
  let ?obj = "if instanceof_OAuthProvider provider
              then fold addScope (requested_scopes options) p else p"
  let ?w1 = "invoke Call_useDeviceLanguage
               (setState [''loading'' \<mapsto> JBool True] (invoke Call_getAuth w))"
  let ?w2 = "invoke (Call_signInWithPopup ?obj) ?w1"
  show ?thesis
  proof (cases "signInWithPopup k (calls ?w1) ?obj")
    case (Resolved uc)
    with assms show ?thesis
      by (simp add: signInWithProvider_def signInWithProvider_body_def Let_def)
  next
    case (Rejected e)
    show ?thesis
    proof (cases "account_exists e")
      case None
      with assms Rejected show ?thesis
        by (simp add: signInWithProvider_def signInWithProvider_body_def Let_def)
    next
      case (Some a)
      obtain em cr where a: "a = (em, cr)" by (cases a)
      from calls_link_existing_account [of k em cr ?w2]
      obtain rest where "calls (snd (link_existing_account k em cr ?w2))
          = calls ?w2 @ Call_fetchSignInMethodsForEmail em # rest" ..
      with assms Rejected Some a show ?thesis
        by (simp add: signInWithProvider_def signInWithProvider_body_def Let_def)
    qed
  qed
qed

text \<open>
  Claim C4 as stated fails: \<open>password\<close> is a member of the enum, but the switch has
  no case for it, so no provider is constructed and no popup is opened; and the error for
  an unrecognized name is not thrown synchronously, it rejects the returned promise.
\<close>

theorem password_is_not_resolved:
  "PASSWORD \<in> set SIGNIN_PROVIDERS
   \<and> fst (signInWithProvider (ProviderName PASSWORD) None example_sdk (mounted None))
       = Returns (Rejected (Error ''Unrecognized provider: password''))
   \<and> calls (snd (signInWithProvider (ProviderName PASSWORD) None example_sdk (mounted None)))
       = [Call_getAuth, Call_onAuthStateChanged, Call_getAuth, Call_useDeviceLanguage]
   \<and> fst (signInWithProvider (ProviderName ''apple'') None example_sdk (mounted None))
       = Returns (Rejected (Error ''Unrecognized provider: apple''))"
  by (simp add: signInWithProvider_def signInWithProvider_body_def Let_def
      SIGNIN_PROVIDERS_def PASSWORD_def GOOGLE_def FACEBOOK_def TWITTER_def GITHUB_def
      MICROSOFT_def YAHOO_def mounted_None_calls)

text \<open>
  Claim C4, amended. For each of the six names google, facebook, twitter, github,
  microsoft and yahoo, \<open>signInWithProvider\<close> constructs the corresponding provider
  object and opens the popup with it. For every other string, \<open>password\<close> included,
  it opens no popup and returns a promise rejected with the unrecognized-provider error,
  after \<open>loading\<close> has been set to true.
\<close>

theorem provider_name_resolution:
  "resolve_provider (ProviderName GOOGLE) = Inr (new GoogleAuthProvider)
   \<and> resolve_provider (ProviderName FACEBOOK) = Inr (new FacebookAuthProvider)
   \<and> resolve_provider (ProviderName TWITTER) = Inr (new TwitterAuthProvider)
   \<and> resolve_provider (ProviderName GITHUB) = Inr (new GithubAuthProvider)
   \<and> resolve_provider (ProviderName MICROSOFT) = Inr (new (OAuthProvider ''microsoft.com''))
   \<and> resolve_provider (ProviderName YAHOO) = Inr (new (OAuthProvider ''yahoo.com''))
   \<and> (provider \<in> {GOOGLE, FACEBOOK, TWITTER, GITHUB, MICROSOFT, YAHOO} \<longrightarrow>
        (\<exists>p rest. resolve_provider (ProviderName provider) = Inr p
           \<and> calls (snd (signInWithProvider (ProviderName provider) options k w))
               = calls w @ [Call_getAuth, Call_useDeviceLanguage, Call_signInWithPopup p] @ rest))
   \<and> (provider \<notin> {GOOGLE, FACEBOOK, TWITTER, GITHUB, MICROSOFT, YAHOO} \<longrightarrow>
        signInWithProvider (ProviderName provider) options k w
          = (Returns (Rejected (Error (''Unrecognized provider: '' @ provider))),
             invoke Call_useDeviceLanguage
               (setState [''loading'' \<mapsto> JBool True] (invoke Call_getAuth w))))"
proof (intro conjI impI)
  assume "provider \<in> {GOOGLE, FACEBOOK, TWITTER, GITHUB, MICROSOFT, YAHOO}"
  then obtain p where p: "resolve_provider (ProviderName provider) = Inr p"
    using resolve_provider_names by auto
  from signInWithProvider_opens_popup [OF p, of options k w] p
  show "\<exists>p rest. resolve_provider (ProviderName provider) = Inr p
      \<and> calls (snd (signInWithProvider (ProviderName provider) options k w))
          = calls w @ [Call_getAuth, Call_useDeviceLanguage, Call_signInWithPopup p] @ rest"
    by auto
next
  assume "provider \<notin> {GOOGLE, FACEBOOK, TWITTER, GITHUB, MICROSOFT, YAHOO}"
  then have "resolve_provider (ProviderName provider)
      = Inl (Error (''Unrecognized provider: '' @ provider))"
    by (rule resolve_provider_unrecognized)
  then show "signInWithProvider (ProviderName provider) options k w
      = (Returns (Rejected (Error (''Unrecognized provider: '' @ provider))),
         invoke Call_useDeviceLanguage
           (setState [''loading'' \<mapsto> JBool True] (invoke Call_getAuth w)))"
    by (simp add: signInWithProvider_def signInWithProvider_body_def Let_def async_Inl)
qed (rule resolve_provider_names)+

theorem provider_name_resolution_witness:
  "GITHUB \<in> {GOOGLE, FACEBOOK, TWITTER, GITHUB, MICROSOFT, YAHOO}
   \<and> (\<exists>rest. calls (snd (signInWithProvider (ProviderName GITHUB) None example_sdk
          (mounted None)))
        = calls (mounted None)
          @ [Call_getAuth, Call_useDeviceLanguage, Call_signInWithPopup (new GithubAuthProvider)]
          @ rest)
   \<and> PASSWORD \<notin> {GOOGLE, FACEBOOK, TWITTER, GITHUB, MICROSOFT, YAHOO}
   \<and> signInWithProvider (ProviderName PASSWORD) None example_sdk (mounted None)
       = (Returns (Rejected (Error (''Unrecognized provider: '' @ PASSWORD))),
          invoke Call_useDeviceLanguage
            (setState [''loading'' \<mapsto> JBool True] (invoke Call_getAuth (mounted None))))"
proof -
  note t1 = provider_name_resolution [of GITHUB None example_sdk "mounted None"]
  note t2 = provider_name_resolution [of PASSWORD None example_sdk "mounted None"]
  have h1: "GITHUB \<in> {GOOGLE, FACEBOOK, TWITTER, GITHUB, MICROSOFT, YAHOO}"
    by simp
  have h2: "PASSWORD \<notin> {GOOGLE, FACEBOOK, TWITTER, GITHUB, MICROSOFT, YAHOO}"
    by (simp add: PASSWORD_def GOOGLE_def FACEBOOK_def TWITTER_def GITHUB_def
        MICROSOFT_def YAHOO_def)
  from t1 have r: "resolve_provider (ProviderName GITHUB) = Inr (new GithubAuthProvider)"
    by (elim conjE)
  from t1 h1 obtain p rest where
    p: "resolve_provider (ProviderName GITHUB) = Inr p" and
    c: "calls (snd (signInWithProvider (ProviderName GITHUB) None example_sdk (mounted None)))
        = calls (mounted None)
          @ [Call_getAuth, Call_useDeviceLanguage, Call_signInWithPopup p] @ rest"
    by blast
  from p r have "p = new GithubAuthProvider"
    by simp
  with c have c1: "\<exists>rest. calls (snd (signInWithProvider (ProviderName GITHUB) None example_sdk
          (mounted None)))
        = calls (mounted None)
          @ [Call_getAuth, Call_useDeviceLanguage, Call_signInWithPopup (new GithubAuthProvider)]
          @ rest"
    by blast
  from t2 h2 have c2: "signInWithProvider (ProviderName PASSWORD) None example_sdk (mounted None)
       = (Returns (Rejected (Error (''Unrecognized provider: '' @ PASSWORD))),
          invoke Call_useDeviceLanguage
            (setState [''loading'' \<mapsto> JBool True] (invoke Call_getAuth (mounted None))))"
    by blast
  from h1 h2 c1 c2 show ?thesis
    by (simp only: simp_thms)
qed

lemma scopes_fold_addScope: "scopes (fold addScope xs p) = scopes p @ xs"
  by (induction xs arbitrary: p) (simp_all add: addScope_def)

text \<open>
  The scopes are attached when the caller passes an \<open>OAuthProvider\<close> object itself:
  the popup is then opened with every requested scope added to that object.
\<close>

lemma scopes_attached_for_OAuthProvider_object:
  assumes "cls p = OAuthProvider providerId"
  shows "\<exists>rest. calls (snd (signInWithProvider (ProviderObject p) (Some (Some xs)) k w))
           = calls w @ [Call_getAuth, Call_useDeviceLanguage,
                        Call_signInWithPopup (fold addScope xs p)] @ rest"
    and "set xs \<subseteq> set (scopes (fold addScope xs p))"
  using assms signInWithProvider_opens_popup [of "ProviderObject p" p "Some (Some xs)" k w]
  by (simp_all add: scopes_fold_addScope)

text \<open>
  Claim C5 at the name \<open>microsoft\<close> with the scope \<open>email\<close> requested. The test
  \<open>provider instanceof OAuthProvider\<close> reads the argument, which is a string here, not
  the constructed object: the popup is opened with an \<open>OAuthProvider\<close> that has no
  scope attached.
\<close>

theorem scopes_dropped_for_provider_name:
  "resolve_provider (ProviderName MICROSOFT) = Inr (new (OAuthProvider ''microsoft.com''))
   \<and> calls (snd (signInWithProvider (ProviderName MICROSOFT) (Some (Some [''email'']))
        example_sdk (mounted None)))
       = [Call_getAuth, Call_onAuthStateChanged, Call_getAuth, Call_useDeviceLanguage,
          Call_signInWithPopup (new (OAuthProvider ''microsoft.com''))]
   \<and> scopes (new (OAuthProvider ''microsoft.com'')) = []"
  by (simp add: signInWithProvider_def signInWithProvider_body_def Let_def
      MICROSOFT_def GOOGLE_def FACEBOOK_def TWITTER_def GITHUB_def new_def
      example_sdk_def mounted_None_calls)

lemma account_exists_Some:
  "email e = Some em \<Longrightarrow> em \<noteq> [] \<Longrightarrow> credential e = Some cr \<Longrightarrow>
   code e = Some ''auth/account-exists-with-different-credential'' \<Longrightarrow>
   account_exists e = Some (em, cr)"
  by (simp add: account_exists_def)

lemma signInWithProvider_conflict:
  assumes "resolve_provider provider = Inr p"
    and "providerObj = (if instanceof_OAuthProvider provider
                        then fold addScope (requested_scopes options) p else p)"
    and "signInWithPopup k (calls w @ [Call_getAuth, Call_useDeviceLanguage]) providerObj
           = Rejected e"
    and "account_exists e = Some (em, cr)"
  shows "signInWithProvider provider options k w
           = async (link_existing_account k em cr
               (invoke (Call_signInWithPopup providerObj)
                  (invoke Call_useDeviceLanguage
                     (setState [''loading'' \<mapsto> JBool True] (invoke Call_getAuth w)))))"
  using assms
  by (simp add: signInWithProvider_def signInWithProvider_body_def Let_def)

lemma getProvider_supported:
  assumes "m \<in> set (supportedPopupSignInMethods k)"
  shows "\<exists>c. getProvider k m = Inr (new c)
           \<and> (c = GoogleAuthProvider \<and> m = GoogleAuthProvider_PROVIDER_ID k
              \<or> c = FacebookAuthProvider \<and> m = FacebookAuthProvider_PROVIDER_ID k
              \<or> c = GithubAuthProvider \<and> m = GithubAuthProvider_PROVIDER_ID k)"
  using assms by (auto simp add: supportedPopupSignInMethods_def getProvider_def)

lemma link_existing_account_unsupported:
  assumes "fetchSignInMethodsForEmail k em = Resolved methods"
    and "find (\<lambda>m. m \<in> set (supportedPopupSignInMethods k)) methods = None"
  shows "link_existing_account k em cr w
           = (Inl (Error unsupported_message), invoke (Call_fetchSignInMethodsForEmail em) w)"
  using assms by (simp add: link_existing_account_def Let_def)

lemma link_existing_account_second_popup:
  assumes "fetchSignInMethodsForEmail k em = Resolved methods"
    and "find (\<lambda>m. m \<in> set (supportedPopupSignInMethods k)) methods = Some m"
    and "m \<noteq> []"
    and "getProvider k m = Inr p"
    and "linked = setCustomParameters [(''login_hint'', em)] p"
  shows "link_existing_account k em cr w
           = (case signInWithPopup k (calls w @ [Call_fetchSignInMethodsForEmail em]) linked of
                Rejected e4 \<Rightarrow>
                  (Inl e4,
                   invoke (Call_signInWithPopup linked)
                     (invoke (Call_fetchSignInMethodsForEmail em) w))
              | Resolved result \<Rightarrow>
                  (Inr JNull,
                   case uc_user result of
                     None \<Rightarrow> invoke (Call_signInWithPopup linked)
                               (invoke (Call_fetchSignInMethodsForEmail em) w)
                   | Some u \<Rightarrow> invoke (Call_linkWithCredential u cr)
                                 (invoke (Call_signInWithPopup linked)
                                    (invoke (Call_fetchSignInMethodsForEmail em) w))))"
  using assms
  by (simp add: link_existing_account_def Let_def split: settled.splits option.splits)

lemma supportedPopupSignInMethods_link [simp]:
  "supportedPopupSignInMethods (k\<lparr>linkWithCredential := f\<rparr>) = supportedPopupSignInMethods k"
  by (simp add: supportedPopupSignInMethods_def)

lemma getProvider_link [simp]:
  "getProvider (k\<lparr>linkWithCredential := f\<rparr>) = getProvider k"
  by (rule ext) (simp add: getProvider_def)

lemma link_existing_account_ignores_link_result:
  "link_existing_account (k\<lparr>linkWithCredential := f\<rparr>) em cr w = link_existing_account k em cr w"
  by (simp add: link_existing_account_def Let_def
      split: settled.splits option.splits sum.splits)

lemma signInWithProvider_ignores_link_result:
  "signInWithProvider provider options (k\<lparr>linkWithCredential := f\<rparr>) w
     = signInWithProvider provider options k w"
  by (simp add: signInWithProvider_def signInWithProvider_body_def Let_def
      link_existing_account_ignores_link_result
      split: settled.splits option.splits sum.splits)

lemma find_supported_None:
  "(find (\<lambda>x. x \<in> set ys) xs = None) = (set xs \<inter> set ys = {})"
  by (auto simp add: find_None_iff)

text \<open>
  The recovery branch of the catch block. Let the first popup reject with the code
  \<open>auth/account-exists-with-different-credential\<close> and with \<open>email\<close> and
  \<open>credential\<close> as own properties of the error, and let the lookup of the sign-in
  methods for that email succeed. If none of the methods is one of the three supported
  provider identifiers, the call rejects with the unsupported-provider error, the
  \<open>error\<close> field is as before, and the lookup was the last SDK call. Otherwise the
  provider of the first supported method is constructed, given the email as
  \<open>login_hint\<close>, and a second popup is opened with it; when that popup resolves with a
  user, the pending credential is linked to that user.
\<close>

theorem account_exists_recovery:
  assumes res: "resolve_provider provider = Inr p"
    and obj: "providerObj = (if instanceof_OAuthProvider provider
                             then fold addScope (requested_scopes options) p else p)"
    and rej: "signInWithPopup k (calls w @ [Call_getAuth, Call_useDeviceLanguage]) providerObj
                = Rejected e"
    and em: "email e = Some em" "em \<noteq> []"
    and cr: "credential e = Some cr"
    and code: "code e = Some ''auth/account-exists-with-different-credential''"
    and fetch: "fetchSignInMethodsForEmail k em = Resolved methods"
    and ids: "[] \<notin> set (supportedPopupSignInMethods k)"
    and h: "h = calls w @ [Call_getAuth, Call_useDeviceLanguage,
                          Call_signInWithPopup providerObj, Call_fetchSignInMethodsForEmail em]"
  shows
    "(set methods \<inter> set (supportedPopupSignInMethods k) = {} \<longrightarrow>
        fst (signInWithProvider provider options k w)
          = Returns (Rejected (Error unsupported_message))
        \<and> state (snd (signInWithProvider provider options k w)) ''error'' = state w ''error''
        \<and> calls (snd (signInWithProvider provider options k w)) = h)
     \<and> (set methods \<inter> set (supportedPopupSignInMethods k) \<noteq> {} \<longrightarrow>
        (\<exists>m. find (\<lambda>x. x \<in> set (supportedPopupSignInMethods k)) methods = Some m))
     \<and> (\<forall>m. find (\<lambda>x. x \<in> set (supportedPopupSignInMethods k)) methods = Some m \<longrightarrow>
        (\<exists>c. (c = GoogleAuthProvider \<and> m = GoogleAuthProvider_PROVIDER_ID k
                \<or> c = FacebookAuthProvider \<and> m = FacebookAuthProvider_PROVIDER_ID k
                \<or> c = GithubAuthProvider \<and> m = GithubAuthProvider_PROVIDER_ID k)
           \<and> (\<exists>rest. calls (snd (signInWithProvider provider options k w))
                 = h @ [Call_signInWithPopup
                          (setCustomParameters [(''login_hint'', em)] (new c))] @ rest)
           \<and> (\<forall>result u.
                 signInWithPopup k h (setCustomParameters [(''login_hint'', em)] (new c))
                   = Resolved result \<and> uc_user result = Some u \<longrightarrow>
                 calls (snd (signInWithProvider provider options k w))
                   = h @ [Call_signInWithPopup
                            (setCustomParameters [(''login_hint'', em)] (new c)),
                          Call_linkWithCredential u cr])))"
proof -
  let ?w2 = "invoke (Call_signInWithPopup providerObj)
               (invoke Call_useDeviceLanguage
                  (setState [''loading'' \<mapsto> JBool True] (invoke Call_getAuth w)))"
  let ?sup = "\<lambda>x. x \<in> set (supportedPopupSignInMethods k)"
  from em cr code have acc: "account_exists e = Some (em, cr)"
    by (rule account_exists_Some)
  have sip: "signInWithProvider provider options k w
      = async (link_existing_account k em cr ?w2)"
    by (rule signInWithProvider_conflict [OF res obj rej acc])
  have hw: "calls ?w2 @ [Call_fetchSignInMethodsForEmail em] = h"
    by (simp add: h)
  have none: "set methods \<inter> set (supportedPopupSignInMethods k) = {} \<longrightarrow>
        fst (signInWithProvider provider options k w)
          = Returns (Rejected (Error unsupported_message))
        \<and> state (snd (signInWithProvider provider options k w)) ''error'' = state w ''error''
        \<and> calls (snd (signInWithProvider provider options k w)) = h"
  proof
    assume "set methods \<inter> set (supportedPopupSignInMethods k) = {}"
    then have "find ?sup methods = None"
      by (simp add: find_supported_None)
    with fetch have "link_existing_account k em cr ?w2
        = (Inl (Error unsupported_message), invoke (Call_fetchSignInMethodsForEmail em) ?w2)"
      by (rule link_existing_account_unsupported)
    then show "fst (signInWithProvider provider options k w)
          = Returns (Rejected (Error unsupported_message))
        \<and> state (snd (signInWithProvider provider options k w)) ''error'' = state w ''error''
        \<and> calls (snd (signInWithProvider provider options k w)) = h"
      by (simp add: sip h reduce_apply)
  qed
  have ex: "set methods \<inter> set (supportedPopupSignInMethods k) \<noteq> {} \<longrightarrow>
        (\<exists>m. find ?sup methods = Some m)"
    using find_supported_None [of "supportedPopupSignInMethods k" methods] by auto
  have some: "\<forall>m. find ?sup methods = Some m \<longrightarrow>
        (\<exists>c. (c = GoogleAuthProvider \<and> m = GoogleAuthProvider_PROVIDER_ID k
                \<or> c = FacebookAuthProvider \<and> m = FacebookAuthProvider_PROVIDER_ID k
                \<or> c = GithubAuthProvider \<and> m = GithubAuthProvider_PROVIDER_ID k)
           \<and> (\<exists>rest. calls (snd (signInWithProvider provider options k w))
                 = h @ [Call_signInWithPopup
                          (setCustomParameters [(''login_hint'', em)] (new c))] @ rest)
           \<and> (\<forall>result u.
                 signInWithPopup k h (setCustomParameters [(''login_hint'', em)] (new c))
                   = Resolved result \<and> uc_user result = Some u \<longrightarrow>
                 calls (snd (signInWithProvider provider options k w))
                   = h @ [Call_signInWithPopup
                            (setCustomParameters [(''login_hint'', em)] (new c)),
                          Call_linkWithCredential u cr]))"
  proof (intro allI impI)
    fix m
    assume f: "find ?sup methods = Some m"
    then have msup: "m \<in> set (supportedPopupSignInMethods k)"
      by (auto simp add: find_Some_iff)
    with ids have mne: "m \<noteq> []"
      by auto
    from getProvider_supported [OF msup] obtain c where
      gp: "getProvider k m = Inr (new c)" and
      mt: "c = GoogleAuthProvider \<and> m = GoogleAuthProvider_PROVIDER_ID k
           \<or> c = FacebookAuthProvider \<and> m = FacebookAuthProvider_PROVIDER_ID k
           \<or> c = GithubAuthProvider \<and> m = GithubAuthProvider_PROVIDER_ID k"
      by blast
    let ?linked = "setCustomParameters [(''login_hint'', em)] (new c)"
    note eq = link_existing_account_second_popup
      [OF fetch f mne gp refl, of cr ?w2, unfolded hw]
    have rest: "\<exists>rest. calls (snd (signInWithProvider provider options k w))
        = h @ [Call_signInWithPopup ?linked] @ rest"
      by (simp add: sip eq h split: settled.splits option.splits)
    have link: "\<forall>result u. signInWithPopup k h ?linked = Resolved result
          \<and> uc_user result = Some u \<longrightarrow>
        calls (snd (signInWithProvider provider options k w))
          = h @ [Call_signInWithPopup ?linked, Call_linkWithCredential u cr]"
      by (simp add: sip eq h)
    from mt rest link
    show "\<exists>c. (c = GoogleAuthProvider \<and> m = GoogleAuthProvider_PROVIDER_ID k
                \<or> c = FacebookAuthProvider \<and> m = FacebookAuthProvider_PROVIDER_ID k
                \<or> c = GithubAuthProvider \<and> m = GithubAuthProvider_PROVIDER_ID k)
           \<and> (\<exists>rest. calls (snd (signInWithProvider provider options k w))
                 = h @ [Call_signInWithPopup
                          (setCustomParameters [(''login_hint'', em)] (new c))] @ rest)
           \<and> (\<forall>result u.
                 signInWithPopup k h (setCustomParameters [(''login_hint'', em)] (new c))
                   = Resolved result \<and> uc_user result = Some u \<longrightarrow>
                 calls (snd (signInWithProvider provider options k w))
                   = h @ [Call_signInWithPopup
                            (setCustomParameters [(''login_hint'', em)] (new c)),
                          Call_linkWithCredential u cr])"
      by (intro exI [of _ c] conjI)
  qed
  from none ex some show ?thesis
    by (intro conjI)
qed

lemma conflict_sdk_simps:
  "GoogleAuthProvider_PROVIDER_ID conflict_sdk = ''google.com''"
  "FacebookAuthProvider_PROVIDER_ID conflict_sdk = ''facebook.com''"
  "GithubAuthProvider_PROVIDER_ID conflict_sdk = ''github.com''"
  "fetchSignInMethodsForEmail conflict_sdk x = Resolved [''password'', ''github.com'']"
  "signInWithPopup conflict_sdk hs q =
     (if Call_fetchSignInMethodsForEmail ''ann@example.org'' \<in> set hs
      then Resolved \<lparr>uc_user = Some (User ''u1'')\<rparr> else Rejected conflict_error)"
  by (simp_all add: conflict_sdk_def example_sdk_def)

lemma unsupported_sdk_simps:
  "GoogleAuthProvider_PROVIDER_ID unsupported_sdk = ''google.com''"
  "FacebookAuthProvider_PROVIDER_ID unsupported_sdk = ''facebook.com''"
  "GithubAuthProvider_PROVIDER_ID unsupported_sdk = ''github.com''"
  "fetchSignInMethodsForEmail unsupported_sdk x = Resolved [''password'', ''twitter.com'']"
  "signInWithPopup unsupported_sdk hs q =
     (if Call_fetchSignInMethodsForEmail ''ann@example.org'' \<in> set hs
      then Resolved \<lparr>uc_user = Some (User ''u1'')\<rparr> else Rejected conflict_error)"
  by (simp_all add: unsupported_sdk_def conflict_sdk_def example_sdk_def)

theorem account_exists_recovery_example:
  "resolve_provider (ProviderName FACEBOOK) = Inr (new FacebookAuthProvider)
   \<and> signInWithPopup conflict_sdk (calls (mounted None) @ [Call_getAuth, Call_useDeviceLanguage])
        (new FacebookAuthProvider) = Rejected conflict_error
   \<and> signInWithPopup unsupported_sdk (calls (mounted None) @ [Call_getAuth, Call_useDeviceLanguage])
        (new FacebookAuthProvider) = Rejected conflict_error
   \<and> email conflict_error = Some ''ann@example.org''
   \<and> credential conflict_error = Some (AuthCredential ''pending'')
   \<and> code conflict_error = Some ''auth/account-exists-with-different-credential''
   \<and> fetchSignInMethodsForEmail conflict_sdk ''ann@example.org''
       = Resolved [''password'', ''github.com'']
   \<and> fetchSignInMethodsForEmail unsupported_sdk ''ann@example.org''
       = Resolved [''password'', ''twitter.com'']
   \<and> [] \<notin> set (supportedPopupSignInMethods conflict_sdk)
   \<and> [] \<notin> set (supportedPopupSignInMethods unsupported_sdk)
   \<and> set [''password'', ''twitter.com''] \<inter> set (supportedPopupSignInMethods unsupported_sdk) = {}
   \<and> find (\<lambda>x. x \<in> set (supportedPopupSignInMethods conflict_sdk)) [''password'', ''github.com'']
       = Some ''github.com''
   \<and> fst (signInWithProvider (ProviderName FACEBOOK) None unsupported_sdk (mounted None))
       = Returns (Rejected (Error unsupported_message))
   \<and> state (snd (signInWithProvider (ProviderName FACEBOOK) None unsupported_sdk (mounted None)))
        ''error'' = None
   \<and> calls (snd (signInWithProvider (ProviderName FACEBOOK) None conflict_sdk (mounted None)))
       = [Call_getAuth, Call_onAuthStateChanged, Call_getAuth, Call_useDeviceLanguage,
          Call_signInWithPopup (new FacebookAuthProvider),
          Call_fetchSignInMethodsForEmail ''ann@example.org'',
          Call_signInWithPopup
            (setCustomParameters [(''login_hint'', ''ann@example.org'')] (new GithubAuthProvider)),
          Call_linkWithCredential (User ''u1'') (AuthCredential ''pending'')]"
proof -
  let ?h = "calls (mounted None) @ [Call_getAuth, Call_useDeviceLanguage,
              Call_signInWithPopup (new FacebookAuthProvider),
              Call_fetchSignInMethodsForEmail ''ann@example.org'']"
  let ?linked = "setCustomParameters [(''login_hint'', ''ann@example.org'')] (new GithubAuthProvider)"
  have res: "resolve_provider (ProviderName FACEBOOK) = Inr (new FacebookAuthProvider)"
    by (simp add: FACEBOOK_def GOOGLE_def)
  have obj: "new FacebookAuthProvider
      = (if instanceof_OAuthProvider (ProviderName FACEBOOK)
         then fold addScope (requested_scopes None) (new FacebookAuthProvider)
         else new FacebookAuthProvider)"
    by simp
  have rej1: "signInWithPopup conflict_sdk
      (calls (mounted None) @ [Call_getAuth, Call_useDeviceLanguage])
      (new FacebookAuthProvider) = Rejected conflict_error"
    by (simp add: conflict_sdk_simps mounted_None_calls)
  have rej2: "signInWithPopup unsupported_sdk
      (calls (mounted None) @ [Call_getAuth, Call_useDeviceLanguage])
      (new FacebookAuthProvider) = Rejected conflict_error"
    by (simp add: unsupported_sdk_simps mounted_None_calls)
  have em: "email conflict_error = Some ''ann@example.org''" "''ann@example.org'' \<noteq> []"
    and cr: "credential conflict_error = Some (AuthCredential ''pending'')"
    and code: "code conflict_error = Some ''auth/account-exists-with-different-credential''"
    by (simp_all add: conflict_error_def)
  have fetch1: "fetchSignInMethodsForEmail conflict_sdk ''ann@example.org''
      = Resolved [''password'', ''github.com'']"
    by (simp add: conflict_sdk_simps)
  have fetch2: "fetchSignInMethodsForEmail unsupported_sdk ''ann@example.org''
      = Resolved [''password'', ''twitter.com'']"
    by (simp add: unsupported_sdk_simps)
  have ids1: "[] \<notin> set (supportedPopupSignInMethods conflict_sdk)"
    by (simp add: supportedPopupSignInMethods_def conflict_sdk_simps)
  have ids2: "[] \<notin> set (supportedPopupSignInMethods unsupported_sdk)"
    by (simp add: supportedPopupSignInMethods_def unsupported_sdk_simps)
  have empty: "set [''password'', ''twitter.com'']
      \<inter> set (supportedPopupSignInMethods unsupported_sdk) = {}"
    by (simp add: supportedPopupSignInMethods_def unsupported_sdk_simps)
  have found: "find (\<lambda>x. x \<in> set (supportedPopupSignInMethods conflict_sdk))
      [''password'', ''github.com''] = Some ''github.com''"
    by (simp add: supportedPopupSignInMethods_def conflict_sdk_simps)
  note t1 = account_exists_recovery [OF res obj rej1 em cr code fetch1 ids1 refl]
  note t2 = account_exists_recovery [OF res obj rej2 em cr code fetch2 ids2 refl]
  from t2 empty have c2:
    "fst (signInWithProvider (ProviderName FACEBOOK) None unsupported_sdk (mounted None))
       = Returns (Rejected (Error unsupported_message))
     \<and> state (snd (signInWithProvider (ProviderName FACEBOOK) None unsupported_sdk
          (mounted None))) ''error'' = state (mounted None) ''error''"
    by blast
  have noerr: "state (mounted None) ''error'' = None"
    by (simp add: mounted_None_state)
  from t1 found obtain c where
    mt: "c = GoogleAuthProvider \<and> ''github.com'' = GoogleAuthProvider_PROVIDER_ID conflict_sdk
         \<or> c = FacebookAuthProvider \<and> ''github.com'' = FacebookAuthProvider_PROVIDER_ID conflict_sdk
         \<or> c = GithubAuthProvider \<and> ''github.com'' = GithubAuthProvider_PROVIDER_ID conflict_sdk"
    and link: "\<forall>result u.
        signInWithPopup conflict_sdk ?h
          (setCustomParameters [(''login_hint'', ''ann@example.org'')] (new c)) = Resolved result
        \<and> uc_user result = Some u \<longrightarrow>
        calls (snd (signInWithProvider (ProviderName FACEBOOK) None conflict_sdk (mounted None)))
          = ?h @ [Call_signInWithPopup
                    (setCustomParameters [(''login_hint'', ''ann@example.org'')] (new c)),
                  Call_linkWithCredential u (AuthCredential ''pending'')]"
    by blast
  from mt have c: "c = GithubAuthProvider"
    by (simp add: conflict_sdk_simps)
  have pop2: "signInWithPopup conflict_sdk ?h ?linked = Resolved \<lparr>uc_user = Some (User ''u1'')\<rparr>"
    by (simp add: conflict_sdk_simps)
  from link c pop2 have c1:
    "calls (snd (signInWithProvider (ProviderName FACEBOOK) None conflict_sdk (mounted None)))
       = ?h @ [Call_signInWithPopup ?linked,
               Call_linkWithCredential (User ''u1'') (AuthCredential ''pending'')]"
    by simp
  from res rej1 rej2 em cr code fetch1 fetch2 ids1 ids2 empty found c1 c2 noerr
  show ?thesis
    by (simp add: mounted_None_calls)
qed

text \<open>
  On the recovery branch, when the second popup resolves, \<open>signInWithProvider\<close>
  resolves with \<open>null\<close>, not with the credential. The only state update of the call
  is the initial \<open>loading: true\<close>. The SDK calls are the first popup, the lookup, the
  second popup and, when the result has a user, \<open>linkWithCredential\<close> for that user
  and the pending credential, after which nothing more is done.
\<close>

lemma recovery_branch_result:
  assumes res: "resolve_provider provider = Inr p"
    and obj: "providerObj = (if instanceof_OAuthProvider provider
                             then fold addScope (requested_scopes options) p else p)"
    and rej: "signInWithPopup k (calls w @ [Call_getAuth, Call_useDeviceLanguage]) providerObj
                = Rejected e"
    and em: "email e = Some em" "em \<noteq> []"
    and cr: "credential e = Some cr"
    and code: "code e = Some ''auth/account-exists-with-different-credential''"
    and fetch: "fetchSignInMethodsForEmail k em = Resolved methods"
    and found: "find (\<lambda>x. x \<in> set (supportedPopupSignInMethods k)) methods = Some m"
    and mne: "m \<noteq> []"
    and gp: "getProvider k m = Inr lp"
    and pop2: "signInWithPopup k
                 (calls w @ [Call_getAuth, Call_useDeviceLanguage,
                             Call_signInWithPopup providerObj,
                             Call_fetchSignInMethodsForEmail em])
                 (setCustomParameters [(''login_hint'', em)] lp) = Resolved result"
  shows
    "fst (signInWithProvider provider options k w) = Returns (Resolved JNull)
     \<and> state (snd (signInWithProvider provider options k w))
         = reduce (state w) [''loading'' \<mapsto> JBool True]
     \<and> calls (snd (signInWithProvider provider options k w))
         = calls w @ [Call_getAuth, Call_useDeviceLanguage,
                      Call_signInWithPopup providerObj,
                      Call_fetchSignInMethodsForEmail em,
                      Call_signInWithPopup (setCustomParameters [(''login_hint'', em)] lp)]
           @ (case uc_user result of
                None \<Rightarrow> []
              | Some u \<Rightarrow> [Call_linkWithCredential u cr])"
proof -
  let ?w2 = "invoke (Call_signInWithPopup providerObj)
               (invoke Call_useDeviceLanguage
                  (setState [''loading'' \<mapsto> JBool True] (invoke Call_getAuth w)))"
  from em cr code have acc: "account_exists e = Some (em, cr)"
    by (rule account_exists_Some)
  have sip: "signInWithProvider provider options k w
      = async (link_existing_account k em cr ?w2)"
    by (rule signInWithProvider_conflict [OF res obj rej acc])
  note eq = link_existing_account_second_popup [OF fetch found mne gp refl, of cr ?w2]
  have r: "fst (signInWithProvider provider options k w) = Returns (Resolved JNull)"
    by (simp add: sip eq pop2)
  have st: "state (snd (signInWithProvider provider options k w))
      = reduce (state w) [''loading'' \<mapsto> JBool True]"
    by (simp add: sip)
  have cs: "calls (snd (signInWithProvider provider options k w))
      = calls w @ [Call_getAuth, Call_useDeviceLanguage,
                   Call_signInWithPopup providerObj,
                   Call_fetchSignInMethodsForEmail em,
                   Call_signInWithPopup (setCustomParameters [(''login_hint'', em)] lp)]
        @ (case uc_user result of
             None \<Rightarrow> []
           | Some u \<Rightarrow> [Call_linkWithCredential u cr])"
    by (simp add: sip eq pop2 split: option.splits)
  from r st cs show ?thesis
    by (intro conjI)
qed

section \<open>The account-exists error of the imported SDK\<close>

text \<open>
  The test of the catch block needs \<open>email\<close> and \<open>credential\<close> as own properties
  of the error. Without them the rejection is handled as any other one: it is stored in
  \<open>error\<close>, \<open>loading\<close> is set to false, the call resolves with \<open>null\<close>, and
  the popup was the last SDK call.
\<close>

lemma account_exists_needs_own_properties:
  "email e = None \<or> credential e = None \<Longrightarrow> account_exists e = None"
  by (auto simp add: account_exists_def)

lemma signInWithProvider_stores_rejection:
  assumes "resolve_provider provider = Inr p"
    and "providerObj = (if instanceof_OAuthProvider provider
                        then fold addScope (requested_scopes options) p else p)"
    and "signInWithPopup k (calls w @ [Call_getAuth, Call_useDeviceLanguage]) providerObj
           = Rejected e"
    and "account_exists e = None"
  shows "signInWithProvider provider options k w
           = (Returns (Resolved JNull),
              setState [''error'' \<mapsto> JError e, ''loading'' \<mapsto> JBool False]
                (invoke (Call_signInWithPopup providerObj)
                   (invoke Call_useDeviceLanguage
                      (setState [''loading'' \<mapsto> JBool True] (invoke Call_getAuth w)))))"
  using assms
  by (simp add: signInWithProvider_def signInWithProvider_body_def Let_def async_def)

lemma modular_sdk_run:
  assumes "signInWithPopup k = (\<lambda>h q. Rejected modular_conflict_error)"
  shows "signInWithProvider (ProviderName FACEBOOK) None k (mounted None)
           = (Returns (Resolved JNull),
              setState [''error'' \<mapsto> JError modular_conflict_error, ''loading'' \<mapsto> JBool False]
                (invoke (Call_signInWithPopup (new FacebookAuthProvider))
                   (invoke Call_useDeviceLanguage
                      (setState [''loading'' \<mapsto> JBool True]
                         (invoke Call_getAuth (mounted None))))))"
proof (rule signInWithProvider_stores_rejection)
  show "resolve_provider (ProviderName FACEBOOK) = Inr (new FacebookAuthProvider)"
    by (simp add: FACEBOOK_def GOOGLE_def)
  show "new FacebookAuthProvider
      = (if instanceof_OAuthProvider (ProviderName FACEBOOK)
         then fold addScope (requested_scopes None) (new FacebookAuthProvider)
         else new FacebookAuthProvider)"
    by simp
  show "signInWithPopup k (calls (mounted None) @ [Call_getAuth, Call_useDeviceLanguage])
      (new FacebookAuthProvider) = Rejected modular_conflict_error"
    by (simp add: assms)
  show "account_exists modular_conflict_error = None"
    by (rule account_exists_needs_own_properties) (simp add: modular_conflict_error_def)
qed

lemma modular_sdk_popup:
  "signInWithPopup modular_sdk = (\<lambda>h q. Rejected modular_conflict_error)"
  "signInWithPopup modular_unsupported_sdk = (\<lambda>h q. Rejected modular_conflict_error)"
  by (simp_all add: modular_unsupported_sdk_def modular_sdk_def)

text \<open>
  Claim C1 at the account-exists error that the imported SDK builds, for an account whose
  sign-in methods are \<open>password\<close> and \<open>github.com\<close>. The error has the code and
  carries the email, but not as own properties, so the test of the catch block fails: the
  call resolves with \<open>null\<close> and the first popup is the last SDK call. The sign-in
  methods are not fetched, no second popup is opened and nothing is linked. For an
  account with no supported method the call resolves with \<open>null\<close> as well, instead of
  rejecting, and the \<open>error\<close> field is set.
\<close>

theorem sdk_account_exists_error_not_recovered:
  "code modular_conflict_error = Some ''auth/account-exists-with-different-credential''
   \<and> customData_email modular_conflict_error = Some ''ann@example.org''
   \<and> account_exists modular_conflict_error = None
   \<and> fetchSignInMethodsForEmail modular_sdk ''ann@example.org''
       = Resolved [''password'', ''github.com'']
   \<and> fst (signInWithProvider (ProviderName FACEBOOK) None modular_sdk (mounted None))
       = Returns (Resolved JNull)
   \<and> calls (snd (signInWithProvider (ProviderName FACEBOOK) None modular_sdk (mounted None)))
       = [Call_getAuth, Call_onAuthStateChanged, Call_getAuth, Call_useDeviceLanguage,
          Call_signInWithPopup (new FacebookAuthProvider)]
   \<and> fetchSignInMethodsForEmail modular_unsupported_sdk ''ann@example.org''
       = Resolved [''password'', ''twitter.com'']
   \<and> fst (signInWithProvider (ProviderName FACEBOOK) None modular_unsupported_sdk
        (mounted None)) = Returns (Resolved JNull)
   \<and> state (snd (signInWithProvider (ProviderName FACEBOOK) None modular_unsupported_sdk
        (mounted None))) ''error'' = Some (JError modular_conflict_error)"
proof (intro conjI)
  show "code modular_conflict_error = Some ''auth/account-exists-with-different-credential''"
    and "customData_email modular_conflict_error = Some ''ann@example.org''"
    by (simp_all add: modular_conflict_error_def)
  show "account_exists modular_conflict_error = None"
    by (rule account_exists_needs_own_properties) (simp add: modular_conflict_error_def)
  show "fetchSignInMethodsForEmail modular_sdk ''ann@example.org''
      = Resolved [''password'', ''github.com'']"
    by (simp add: modular_sdk_def example_sdk_def)
  show "fetchSignInMethodsForEmail modular_unsupported_sdk ''ann@example.org''
      = Resolved [''password'', ''twitter.com'']"
    by (simp add: modular_unsupported_sdk_def)
  show "fst (signInWithProvider (ProviderName FACEBOOK) None modular_sdk (mounted None))
      = Returns (Resolved JNull)"
    by (simp add: modular_sdk_run [OF modular_sdk_popup(1)])
  show "calls (snd (signInWithProvider (ProviderName FACEBOOK) None modular_sdk (mounted None)))
      = [Call_getAuth, Call_onAuthStateChanged, Call_getAuth, Call_useDeviceLanguage,
         Call_signInWithPopup (new FacebookAuthProvider)]"
    by (simp add: modular_sdk_run [OF modular_sdk_popup(1)] mounted_None_calls)
  show "fst (signInWithProvider (ProviderName FACEBOOK) None modular_unsupported_sdk
      (mounted None)) = Returns (Resolved JNull)"
    by (simp add: modular_sdk_run [OF modular_sdk_popup(2)])
  show "state (snd (signInWithProvider (ProviderName FACEBOOK) None modular_unsupported_sdk
      (mounted None))) ''error'' = Some (JError modular_conflict_error)"
    by (simp add: modular_sdk_run [OF modular_sdk_popup(2)] reduce_apply)
qed


end
